theory Spec2Isabelle
  imports Complex_Main "HOL-Library.Multiset" "HOL-Library.Monad_Syntax"
begin

section \<open>Core types (include/gpagent/core/types.hpp, errors.hpp)\<close>

text \<open>
  \<^verbatim>\<open>Json\<close> is \<^verbatim>\<open>nlohmann::json\<close>. A value is one of the library's kinds. The two
  integer kinds of the library (signed and unsigned) are both \<open>JInt\<close>: every test the
  code makes (\<^verbatim>\<open>is_number_integer\<close>, \<^verbatim>\<open>is_number\<close>) treats them alike. An object is
  an association list and is only ever read by key.
\<close>

datatype json =
    JNull
  | JBool bool
  | JInt int
  | JFloat real
  | JString string
  | JArray "json list"
  | JObject "(string \<times> json) list"

fun contains :: "json \<Rightarrow> string \<Rightarrow> bool" where
  "contains (JObject kvs) k = (map_of kvs k \<noteq> None)"
| "contains _ k = False"

fun lookup :: "json \<Rightarrow> string \<Rightarrow> json option" where
  "lookup (JObject kvs) k = map_of kvs k"
| "lookup _ k = None"

fun value_or :: "'a option \<Rightarrow> 'a \<Rightarrow> 'a" where
  "value_or None d = d"
| "value_or (Some v) d = v"

datatype Role = System | User | Assistant | Tool

record ToolCall =
  tc_id :: string
  tc_tool_name :: string
  tc_arguments :: json

record ImageContent =
  img_data :: string
  img_media_type :: string
  img_source_path :: string

text \<open>A \<^verbatim>\<open>TimePoint\<close> is the tick count of the system clock since the epoch.\<close>

record Message =
  msg_role :: Role
  msg_content :: string
  msg_name :: "string option"
  msg_tool_calls :: "ToolCall list"
  msg_tool_call_id :: "string option"
  msg_images :: "ImageContent list"
  msg_timestamp :: int

record ToolResult =
  tr_tool_call_id :: string
  tr_success :: bool
  tr_content :: string
  tr_error_message :: "string option"
  tr_execution_time :: int
  tr_is_image :: bool

datatype ErrorCode =
    Ok | Unknown | InvalidArgument | NotFound | AlreadyExists | PermissionDenied
  | Timeout | Cancelled | NotImplemented | InternalError | InvalidState
  | MemoryLoadFailed | MemorySaveFailed | MemoryCorrupted | CheckpointNotFound
  | EpisodeNotFound | SessionExpired | SessionNotFound
  | LLMConnectionFailed | LLMRateLimited | LLMContextOverflow | LLMInvalidResponse
  | LLMApiKeyMissing | LLMProviderUnavailable | LLMTokenLimitExceeded | LLMStreamError
  | ToolNotFound | ToolExecutionFailed | ToolValidationFailed | ToolTimeout
  | ToolPermissionDenied | MCPConnectionFailed | MCPProtocolError | ToolDisabled
  | TRMModelNotLoaded | TRMInferenceFailed | TRMTrainingFailed | TRMInsufficientData
  | TRMModelCorrupted
  | ContextBuildFailed | ContextCompactionFailed | ContextTooLarge
  | ConfigNotFound | ConfigParseFailed | ConfigValidationFailed | ConfigKeyMissing
  | FileNotFound | FileReadFailed | FileWriteFailed | DirectoryNotFound | PathNotAllowed
  | FileTooLarge
  | NetworkError | ConnectionRefused | DNSResolutionFailed | SSLError

definition is_retriable :: "ErrorCode \<Rightarrow> bool" where
  "is_retriable code =
     (case code of
        LLMRateLimited \<Rightarrow> True
      | LLMConnectionFailed \<Rightarrow> True
      | LLMStreamError \<Rightarrow> True
      | ToolTimeout \<Rightarrow> True
      | MCPConnectionFailed \<Rightarrow> True
      | NetworkError \<Rightarrow> True
      | ConnectionRefused \<Rightarrow> True
      | Timeout \<Rightarrow> True
      | _ \<Rightarrow> False)"

record Error =
  err_code :: ErrorCode
  err_message :: string
  err_context :: "string option"
  err_source :: "string option"

text \<open>The constructors \<^verbatim>\<open>Error(c, msg)\<close> and \<^verbatim>\<open>Error(c, msg, ctx)\<close>.\<close>

definition error2 :: "ErrorCode \<Rightarrow> string \<Rightarrow> Error" where
  "error2 c msg = \<lparr>err_code = c, err_message = msg, err_context = None, err_source = None\<rparr>"

definition error3 :: "ErrorCode \<Rightarrow> string \<Rightarrow> string \<Rightarrow> Error" where
  "error3 c msg ctx =
     \<lparr>err_code = c, err_message = msg, err_context = Some ctx, err_source = None\<rparr>"

definition full_message :: "Error \<Rightarrow> string" where
  "full_message e =
     err_message e
     @ (case err_context e of Some c \<Rightarrow> '' ['' @ c @ '']'' | None \<Rightarrow> [])
     @ (case err_source e of Some s \<Rightarrow> '' at '' @ s | None \<Rightarrow> [])"

section \<open>Tool specifications and the registry (tool_spec.hpp, src/tools/tool_registry.cpp)\<close>

datatype ParamType = String | Integer | Number | Boolean | Array | Object

record ParamSpec =
  ps_name :: string
  ps_description :: string
  ps_type :: ParamType
  ps_required :: bool
  ps_default_value :: "json option"
  ps_enum_values :: "string list option"

record ToolSpec =
  ts_name :: string
  ts_description :: string
  ts_parameters :: "ParamSpec list"
  ts_keywords :: "string list"
  ts_requires_confirmation :: bool
  ts_timeout_ms :: int

record ToolContext =
  ctx_session_id :: string
  ctx_working_directory :: string
  ctx_allowed_paths :: "string list"
  ctx_sandbox_enabled :: bool
  ctx_max_output_lines :: int
  ctx_timeout_ms :: int
  ctx_env :: "(string \<times> string) list"

text \<open>
  A \<^verbatim>\<open>ToolHandler\<close> is an opaque function object. A call of it returns a
  \<^verbatim>\<open>ToolResult\<close>, or throws a \<^verbatim>\<open>std::exception\<close> (with its \<^verbatim>\<open>what()\<close> text), or throws
  something that is not a \<^verbatim>\<open>std::exception\<close>, or never returns.
\<close>

datatype HandlerOutcome =
    Returned ToolResult
  | ThrewStd string
  | ThrewOther
  | NeverReturned

type_synonym ToolHandler = "json \<Rightarrow> ToolContext \<Rightarrow> HandlerOutcome"

text \<open>
  How a call of a function of the program ends: it returns a value, or it is left by an
  exception that the function does not catch, or it never returns.
\<close>

datatype 'a Completion = Returns 'a | Throws | NeverReturns

record RegisteredTool =
  rt_spec :: ToolSpec
  rt_handler :: ToolHandler
  rt_enabled :: bool
  rt_source :: string

text \<open>The registry's \<^verbatim>\<open>tools_\<close> (an unordered map from tool name to its entry).\<close>

type_synonym ToolRegistry = "string \<Rightarrow> RegisteredTool option"

fun is_string :: "json \<Rightarrow> bool" where
  "is_string (JString s) = True"
| "is_string _ = False"

fun type_valid :: "ParamType \<Rightarrow> json \<Rightarrow> bool" where
  "type_valid String v = is_string v"
| "type_valid Integer v = (case v of JInt n \<Rightarrow> True | _ \<Rightarrow> False)"
| "type_valid Number v = (case v of JInt n \<Rightarrow> True | JFloat x \<Rightarrow> True | _ \<Rightarrow> False)"
| "type_valid Boolean v = (case v of JBool b \<Rightarrow> True | _ \<Rightarrow> False)"
| "type_valid Array v = (case v of JArray xs \<Rightarrow> True | _ \<Rightarrow> False)"
| "type_valid Object v = (case v of JObject kvs \<Rightarrow> True | _ \<Rightarrow> False)"

text \<open>The first loop of \<^verbatim>\<open>validate_args\<close>: required parameters.\<close>

fun check_required :: "string \<Rightarrow> ParamSpec list \<Rightarrow> json \<Rightarrow> Error option" where
  "check_required tool [] args = None"
| "check_required tool (param # rest) args =
     (if ps_required param \<and> \<not> contains args (ps_name param)
      then Some (error3 ToolValidationFailed
                   (''Missing required parameter: '' @ ps_name param) tool)
      else check_required tool rest args)"

text \<open>The enumeration check on one supplied value.\<close>

definition enum_violation :: "ParamSpec \<Rightarrow> json \<Rightarrow> bool" where
  "enum_violation param v =
     (case ps_enum_values param of
        None \<Rightarrow> False
      | Some enum_vals \<Rightarrow> (case v of JString str_value \<Rightarrow> str_value \<notin> set enum_vals | _ \<Rightarrow> False))"

text \<open>The second loop: the type and the enumeration of every supplied declared parameter.\<close>

fun check_types :: "string \<Rightarrow> ParamSpec list \<Rightarrow> json \<Rightarrow> Error option" where
  "check_types tool [] args = None"
| "check_types tool (param # rest) args =
     (case lookup args (ps_name param) of
        None \<Rightarrow> check_types tool rest args
      | Some v \<Rightarrow>
          if \<not> type_valid (ps_type param) v
          then Some (error3 ToolValidationFailed
                       (''Invalid type for parameter: '' @ ps_name param) tool)
          else if enum_violation param v
          then Some (error3 ToolValidationFailed
                       (''Invalid enum value for parameter: '' @ ps_name param) tool)
          else check_types tool rest args)"

definition validate_args :: "ToolSpec \<Rightarrow> json \<Rightarrow> Error + unit" where
  "validate_args spec args =
     (case check_required (ts_name spec) (ts_parameters spec) args of
        Some e \<Rightarrow> Inl e
      | None \<Rightarrow>
          (case check_types (ts_name spec) (ts_parameters spec) args of
             Some e \<Rightarrow> Inl e
           | None \<Rightarrow> Inr ()))"

text \<open>
  \<^verbatim>\<open>ToolRegistry::execute\<close>. The handler is called inside a \<^verbatim>\<open>try\<close> block that catches
  \<^verbatim>\<open>std::exception\<close> only, so any other exception leaves \<^verbatim>\<open>execute\<close>. The second
  component of the result lists the handler invocations made (tool name and arguments);
  \<open>elapsed\<close> is the duration the steady clock measured around the handler.
\<close>

definition execute ::
  "ToolRegistry \<Rightarrow> int \<Rightarrow> string \<Rightarrow> json \<Rightarrow> ToolContext
     \<Rightarrow> (Error + ToolResult) Completion \<times> (string \<times> json) list" where
  "execute tools elapsed name args ctx =
     (case tools name of
        None \<Rightarrow> (Returns (Inl (error3 ToolNotFound ''Tool not found'' name)), [])
      | Some tool \<Rightarrow>
          if \<not> rt_enabled tool
          then (Returns (Inl (error3 ToolDisabled ''Tool is disabled'' name)), [])
          else (case validate_args (rt_spec tool) args of
                  Inl e \<Rightarrow> (Returns (Inl e), [])
                | Inr u \<Rightarrow>
                    (case rt_handler tool args ctx of
                       Returned result \<Rightarrow>
                         (Returns (Inr (result\<lparr>tr_execution_time := elapsed\<rparr>)), [(name, args)])
                     | ThrewStd what \<Rightarrow>
                         (Returns (Inl (error3 ToolExecutionFailed what name)), [(name, args)])
                     | ThrewOther \<Rightarrow> (Throws, [(name, args)])
                     | NeverReturned \<Rightarrow> (NeverReturns, [(name, args)]))))"

section \<open>ClaudeProvider::format_messages (src/llm/providers/claude.cpp)\<close>

text \<open>First pass: the ids of the tool calls of every assistant message.\<close>

fun valid_tool_ids :: "Message list \<Rightarrow> string set" where
  "valid_tool_ids [] = {}"
| "valid_tool_ids (msg # rest) =
     (if msg_role msg = Assistant
      then set (map tc_id (msg_tool_calls msg)) \<union> valid_tool_ids rest
      else valid_tool_ids rest)"

definition image_block :: "ImageContent \<Rightarrow> json" where
  "image_block img =
     JObject [(''type'', JString ''image''),
              (''source'', JObject [(''type'', JString ''base64''),
                                    (''media_type'', JString (img_media_type img)),
                                    (''data'', JString (img_data img))])]"

definition text_block :: "string \<Rightarrow> json" where
  "text_block s = JObject [(''type'', JString ''text''), (''text'', JString s)]"

definition tool_use_block :: "ToolCall \<Rightarrow> json" where
  "tool_use_block tc =
     JObject [(''type'', JString ''tool_use''),
              (''id'', JString (tc_id tc)),
              (''name'', JString (tc_tool_name tc)),
              (''input'', tc_arguments tc)]"

definition tool_result_block :: "Message \<Rightarrow> json" where
  "tool_result_block msg =
     (let tool_content =
            (if msg_images msg \<noteq> []
             then JArray (map image_block (msg_images msg) @
                          (if msg_content msg \<noteq> [] then [text_block (msg_content msg)] else []))
             else JString (msg_content msg))
      in JObject [(''type'', JString ''tool_result''),
                  (''tool_use_id'', JString (value_or (msg_tool_call_id msg) '''')),
                  (''content'', tool_content)])"

definition format_content :: "Message \<Rightarrow> json" where
  "format_content msg =
     (if msg_role msg = Tool then JArray [tool_result_block msg]
      else if msg_tool_calls msg \<noteq> [] then
        JArray ((if msg_content msg \<noteq> [] then [text_block (msg_content msg)] else []) @
                map tool_use_block (msg_tool_calls msg))
      else if msg_images msg \<noteq> [] then
        JArray (map image_block (msg_images msg) @
                (if msg_content msg \<noteq> [] then [text_block (msg_content msg)] else []))
      else JString (msg_content msg))"

definition role_str :: "Message \<Rightarrow> string" where
  "role_str msg =
     (if msg_role msg = User \<or> msg_role msg = Tool then ''user'' else ''assistant'')"

definition format_entry :: "Message \<Rightarrow> json" where
  "format_entry msg =
     JObject [(''role'', JString (role_str msg)), (''content'', format_content msg)]"

text \<open>Second pass: system messages and orphan tool results are skipped.\<close>

fun format_loop :: "string set \<Rightarrow> Message list \<Rightarrow> json list" where
  "format_loop valid [] = []"
| "format_loop valid (msg # rest) =
     (if msg_role msg = System then format_loop valid rest
      else if msg_role msg = Tool \<and> value_or (msg_tool_call_id msg) '''' \<notin> valid
      then format_loop valid rest
      else format_entry msg # format_loop valid rest)"

definition format_messages :: "Message list \<Rightarrow> json" where
  "format_messages messages = JArray (format_loop (valid_tool_ids messages) messages)"

text \<open>
  Reading the formatted output back: the \<^verbatim>\<open>tool_use_id\<close> of an entry that carries a
  \<^verbatim>\<open>tool_result\<close> block, and those of a whole formatted array, in order.
\<close>

definition entry_tool_use_id :: "json \<Rightarrow> string option" where
  "entry_tool_use_id e =
     (case lookup e ''content'' of
        Some (JArray [b]) \<Rightarrow>
          (if lookup b ''type'' = Some (JString ''tool_result'')
           then (case lookup b ''tool_use_id'' of Some (JString i) \<Rightarrow> Some i | _ \<Rightarrow> None)
           else None)
      | _ \<Rightarrow> None)"

fun tool_result_ids :: "json \<Rightarrow> string list" where
  "tool_result_ids (JArray es) = List.map_filter entry_tool_use_id es"
| "tool_result_ids _ = []"

text \<open>The ids of the tool messages of a sequence, in order.\<close>

definition tool_message_ids :: "Message list \<Rightarrow> string list" where
  "tool_message_ids messages =
     map (\<lambda>m. value_or (msg_tool_call_id m) '''') (filter (\<lambda>m. msg_role m = Tool) messages)"

subsection \<open>Sample messages\<close>

text \<open>Three sample messages: a tool result, the assistant message that issued its call,
  and a tool result whose id no assistant message issued.\<close>

definition sample_tool_result :: Message where
  "sample_tool_result =
     \<lparr>msg_role = Tool, msg_content = ''done'', msg_name = None, msg_tool_calls = [],
      msg_tool_call_id = Some ''tc_1'', msg_images = [], msg_timestamp = 0\<rparr>"

definition sample_assistant_call :: Message where
  "sample_assistant_call =
     \<lparr>msg_role = Assistant, msg_content = [], msg_name = None,
      msg_tool_calls = [\<lparr>tc_id = ''tc_1'', tc_tool_name = ''bash'', tc_arguments = JObject []\<rparr>],
      msg_tool_call_id = None, msg_images = [], msg_timestamp = 0\<rparr>"

definition sample_orphan_result :: Message where
  "sample_orphan_result =
     \<lparr>msg_role = Tool, msg_content = ''stale'', msg_name = None, msg_tool_calls = [],
      msg_tool_call_id = Some ''tc_X'', msg_images = [], msg_timestamp = 0\<rparr>"

subsection \<open>Sample registry\<close>

text \<open>A sample registry: one enabled tool with a required string parameter, an optional
  one restricted to an enumeration and an optional integer.\<close>

definition sample_spec :: ToolSpec where
  "sample_spec =
     \<lparr>ts_name = ''file_read'', ts_description = ''Read a file'',
      ts_parameters =
        [\<lparr>ps_name = ''path'', ps_description = ''File path'', ps_type = String,
          ps_required = True, ps_default_value = None, ps_enum_values = None\<rparr>,
         \<lparr>ps_name = ''mode'', ps_description = ''Read mode'', ps_type = String,
          ps_required = False, ps_default_value = None,
          ps_enum_values = Some [''text'', ''binary'']\<rparr>,
         \<lparr>ps_name = ''limit'', ps_description = ''Maximum number of lines'',
          ps_type = Integer, ps_required = False, ps_default_value = None,
          ps_enum_values = None\<rparr>],
      ts_keywords = [''read''], ts_requires_confirmation = False, ts_timeout_ms = 60000\<rparr>"

definition sample_handler :: ToolHandler where
  "sample_handler args ctx =
     Returned \<lparr>tr_tool_call_id = [], tr_success = True, tr_content = ''contents'',
               tr_error_message = None, tr_execution_time = 0, tr_is_image = False\<rparr>"

definition sample_tool :: RegisteredTool where
  "sample_tool =
     \<lparr>rt_spec = sample_spec, rt_handler = sample_handler, rt_enabled = True,
      rt_source = ''builtin''\<rparr>"

definition sample_registry :: ToolRegistry where
  "sample_registry = [''file_read'' \<mapsto> sample_tool]"

text \<open>Handlers that do not return a result, and the sample registry with another handler
  for its tool.\<close>

definition throwing_handler :: ToolHandler where
  "throwing_handler args ctx = ThrewStd ''disk error''"

definition throwing_other_handler :: ToolHandler where
  "throwing_other_handler args ctx = ThrewOther"

definition hanging_handler :: ToolHandler where
  "hanging_handler args ctx = NeverReturned"

definition registry_with :: "ToolHandler \<Rightarrow> ToolRegistry" where
  "registry_with handler = [''file_read'' \<mapsto> sample_tool\<lparr>rt_handler := handler\<rparr>]"

definition sample_ctx :: ToolContext where
  "sample_ctx =
     \<lparr>ctx_session_id = ''s1'', ctx_working_directory = ''/tmp'', ctx_allowed_paths = [],
      ctx_sandbox_enabled = True, ctx_max_output_lines = 2000, ctx_timeout_ms = 60000,
      ctx_env = []\<rparr>"

section \<open>ToolExecutor (src/tools/tool_executor.cpp)\<close>

record Stats =
  st_total_executions :: int
  st_successful :: int
  st_failed :: int
  st_timeouts :: int
  st_total_time :: int

definition record_execution :: "bool \<Rightarrow> int \<Rightarrow> Stats \<Rightarrow> Stats" where
  "record_execution success time st =
     (let st1 = st\<lparr>st_total_executions := st_total_executions st + 1\<rparr>;
          st2 = (if success then st1\<lparr>st_successful := st_successful st1 + 1\<rparr>
                 else st1\<lparr>st_failed := st_failed st1 + 1\<rparr>)
      in st2\<lparr>st_total_time := st_total_time st2 + time\<rparr>)"

text \<open>
  \<^verbatim>\<open>ToolExecutor::execute\<close>. The pair \<open>(elapsed, duration)\<close> holds the two clock
  measurements: the one the registry takes around the handler and the one the executor
  takes around the registry call. Nothing is caught here: when the registry call is left
  by an exception, so is this call, before any statistics are recorded.
\<close>

definition executor_execute ::
  "ToolRegistry \<Rightarrow> int \<times> int \<Rightarrow> ToolCall \<Rightarrow> ToolContext \<Rightarrow> Stats
     \<Rightarrow> (Error + ToolResult) Completion \<times> Stats" where
  "executor_execute tools t call ctx st =
     (case fst (execute tools (fst t) (tc_tool_name call) (tc_arguments call) ctx) of
        Returns (Inr res) \<Rightarrow>
          (Returns (Inr (res\<lparr>tr_tool_call_id := tc_id call\<rparr>)),
           record_execution (tr_success res) (snd t) st)
      | Returns (Inl e) \<Rightarrow> (Returns (Inl e), record_execution False (snd t) st)
      | Throws \<Rightarrow> (Throws, st)
      | NeverReturns \<Rightarrow> (NeverReturns, st))"

text \<open>The task \<^verbatim>\<open>execute_batch\<close> submits to the pool for one call.\<close>

definition batch_task ::
  "ToolRegistry \<Rightarrow> int \<times> int \<Rightarrow> ToolCall \<Rightarrow> ToolContext \<Rightarrow> Stats
     \<Rightarrow> ToolResult Completion \<times> Stats" where
  "batch_task tools t call ctx st =
     (case executor_execute tools t call ctx st of
        (Returns (Inr res), st') \<Rightarrow> (Returns res, st')
      | (Returns (Inl e), st') \<Rightarrow>
          (Returns \<lparr>tr_tool_call_id = tc_id call, tr_success = False, tr_content = [],
                    tr_error_message = Some (full_message e), tr_execution_time = 0,
                    tr_is_image = False\<rparr>, st')
      | (Throws, st') \<Rightarrow> (Throws, st')
      | (NeverReturns, st') \<Rightarrow> (NeverReturns, st'))"

text \<open>
  The thread pool, as far as \<^verbatim>\<open>execute_batch\<close> depends on it: the number of worker
  threads (\<^verbatim>\<open>thread_pool_size\<close> of the configuration, which nothing validates) and the
  \<^verbatim>\<open>stop_\<close> flag. \<^verbatim>\<open>submit\<close> throws when the pool is stopped; a pool without workers
  accepts tasks and never runs them.
\<close>

record ThreadPool =
  pool_workers :: nat
  pool_stop :: bool

text \<open>
  \<^verbatim>\<open>execute_batch\<close> submits one task per call, in order, and then calls \<^verbatim>\<open>get()\<close> on
  the futures in the order of submission. A future's \<^verbatim>\<open>get()\<close> returns the task's value,
  rethrows the exception that left the task, or blocks for ever when the task is never
  run or never ends. So the first task, in submission order, that does not return a value
  decides how \<^verbatim>\<open>execute_batch\<close> ends, whatever the other tasks do. A handler is a function
  of its arguments and context, so the value of a task does not depend on how the pool
  interleaves the tasks, and the counters of \<open>Stats\<close> are sums; the model runs the tasks
  in submission order. \<open>timing k\<close> holds the clock measurements of the task at position
  \<open>k\<close>.
\<close>

fun batch_loop ::
  "ToolRegistry \<Rightarrow> (nat \<Rightarrow> int \<times> int) \<Rightarrow> ToolContext \<Rightarrow> nat \<Rightarrow> ToolCall list \<Rightarrow> Stats
     \<Rightarrow> (ToolResult list \<times> Stats) Completion" where
  "batch_loop tools timing ctx k [] st = Returns ([], st)"
| "batch_loop tools timing ctx k (call # rest) st =
     (case batch_task tools (timing k) call ctx st of
        (Returns res, st') \<Rightarrow>
          (case batch_loop tools timing ctx (Suc k) rest st' of
             Returns (results, st'') \<Rightarrow> Returns (res # results, st'')
           | Throws \<Rightarrow> Throws
           | NeverReturns \<Rightarrow> NeverReturns)
      | (Throws, st') \<Rightarrow> Throws
      | (NeverReturns, st') \<Rightarrow> NeverReturns)"

definition execute_batch ::
  "ThreadPool \<Rightarrow> ToolRegistry \<Rightarrow> (nat \<Rightarrow> int \<times> int) \<Rightarrow> ToolCall list \<Rightarrow> ToolContext \<Rightarrow> Stats
     \<Rightarrow> (ToolResult list \<times> Stats) Completion" where
  "execute_batch pool tools timing calls ctx st =
     (if calls = [] then Returns ([], st)
      else if pool_stop pool then Throws
      else if pool_workers pool = 0 then NeverReturns
      else batch_loop tools timing ctx 0 calls st)"

text \<open>Sample pools, clock measurements and calls.\<close>

definition sample_pool :: ThreadPool where
  "sample_pool = \<lparr>pool_workers = 4, pool_stop = False\<rparr>"


definition sample_timing :: "nat \<Rightarrow> int \<times> int" where
  "sample_timing k = (5, 6)"

definition sample_calls :: "ToolCall list" where
  "sample_calls =
     [\<lparr>tc_id = ''c1'', tc_tool_name = ''file_read'',
       tc_arguments = JObject [(''path'', JString ''a.txt'')]\<rparr>,
      \<lparr>tc_id = ''c2'', tc_tool_name = ''nope'', tc_arguments = JObject []\<rparr>]"

definition empty_stats :: Stats where
  "empty_stats =
     \<lparr>st_total_executions = 0, st_successful = 0, st_failed = 0, st_timeouts = 0,
      st_total_time = 0\<rparr>"

section \<open>LLMGateway (llm_gateway.hpp, src/llm/llm_gateway.cpp)\<close>

record TokenUsage =
  input_tokens :: int
  output_tokens :: int

datatype StopReason = EndTurn | MaxTokens | ToolUse | StopSequence | StopError

record LLMResponse =
  resp_content :: string
  resp_tool_calls :: "ToolCall list"
  resp_stop_reason :: StopReason
  resp_usage :: TokenUsage
  resp_model :: string
  resp_latency :: int

text \<open>The request, without its streaming callback. The temperature is a \<^verbatim>\<open>float\<close>, which
  the gateway only passes on.\<close>

record LLMRequest =
  req_messages :: "Message list"
  req_system_prompt :: string
  req_tools :: json
  req_max_tokens :: int
  req_temperature :: real
  req_stop_sequences :: "string list"
  req_provider_options :: json

text \<open>
  A provider, as far as the gateway uses it: \<^verbatim>\<open>is_available()\<close> and \<^verbatim>\<open>complete(request)\<close>.
  The gateway calls each provider at most once per request.
\<close>

record LLMProvider =
  prov_available :: bool
  prov_complete :: "LLMRequest \<Rightarrow> Error + LLMResponse"

record UsageStats =
  total_input_tokens :: int
  total_output_tokens :: int
  requests :: int
  failures :: int
  total_latency :: int

record LLMGateway =
  primary_provider :: "LLMProvider option"
  fallback_provider :: "LLMProvider option"
  gw_stats :: UsageStats

definition record_request :: "LLMResponse \<Rightarrow> UsageStats \<Rightarrow> UsageStats" where
  "record_request response st =
     st\<lparr>total_input_tokens := total_input_tokens st + input_tokens (resp_usage response),
        total_output_tokens := total_output_tokens st + output_tokens (resp_usage response),
        total_latency := total_latency st + resp_latency response,
        requests := requests st + 1\<rparr>"

definition record_failure :: "UsageStats \<Rightarrow> UsageStats" where
  "record_failure st = st\<lparr>failures := failures st + 1\<rparr>"

datatype Attempt = OnPrimary | OnFallback

text \<open>\<^verbatim>\<open>fallback_provider_ && fallback_provider_->is_available()\<close>\<close>

definition fallback_usable :: "LLMGateway \<Rightarrow> bool" where
  "fallback_usable gw =
     (case fallback_provider gw of None \<Rightarrow> False | Some f \<Rightarrow> prov_available f)"

text \<open>
  \<^verbatim>\<open>LLMGateway::complete\<close>. The result comes with the list of provider calls made, in
  order, and the updated statistics.
\<close>

definition gateway_complete ::
  "LLMGateway \<Rightarrow> LLMRequest \<Rightarrow> (Error + LLMResponse) \<times> Attempt list \<times> UsageStats" where
  "gateway_complete gw request =
     (case primary_provider gw of
        None \<Rightarrow>
          (Inl (error2 LLMProviderUnavailable ''No LLM provider configured''), [], gw_stats gw)
      | Some p \<Rightarrow>
          if prov_available p then
            (case prov_complete p request of
               Inr response \<Rightarrow> (Inr response, [OnPrimary], record_request response (gw_stats gw))
             | Inl e \<Rightarrow>
                 if is_retriable (err_code e) \<and> fallback_usable gw then
                   (case prov_complete (the (fallback_provider gw)) request of
                      Inr response \<Rightarrow>
                        (Inr response, [OnPrimary, OnFallback],
                         record_request response (gw_stats gw))
                    | Inl e' \<Rightarrow> (Inl e', [OnPrimary, OnFallback], record_failure (gw_stats gw)))
                 else (Inl e, [OnPrimary], record_failure (gw_stats gw)))
          else if fallback_usable gw then
            (case prov_complete (the (fallback_provider gw)) request of
               Inr response \<Rightarrow> (Inr response, [OnFallback], record_request response (gw_stats gw))
             | Inl e \<Rightarrow> (Inl e, [OnFallback], record_failure (gw_stats gw)))
          else
            (Inl (error2 LLMProviderUnavailable ''No LLM provider available''), [], gw_stats gw))"

text \<open>Sample providers and requests.\<close>

definition sample_response :: LLMResponse where
  "sample_response =
     \<lparr>resp_content = ''hello'', resp_tool_calls = [], resp_stop_reason = EndTurn,
      resp_usage = \<lparr>input_tokens = 10, output_tokens = 2\<rparr>, resp_model = ''m'',
      resp_latency = 7\<rparr>"

definition sample_request :: LLMRequest where
  "sample_request =
     \<lparr>req_messages = [], req_system_prompt = [], req_tools = JNull, req_max_tokens = 8192,
      req_temperature = 0, req_stop_sequences = [], req_provider_options = JNull\<rparr>"

definition provider_ok :: LLMProvider where
  "provider_ok = \<lparr>prov_available = True, prov_complete = (\<lambda>r. Inr sample_response)\<rparr>"

definition provider_rate_limited :: LLMProvider where
  "provider_rate_limited =
     \<lparr>prov_available = True,
      prov_complete = (\<lambda>r. Inl (error2 LLMRateLimited ''Rate limited by Anthropic API''))\<rparr>"

definition provider_no_key :: LLMProvider where
  "provider_no_key =
     \<lparr>prov_available = False,
      prov_complete = (\<lambda>r. Inl (error2 LLMApiKeyMissing ''Anthropic API key not set''))\<rparr>"

definition empty_usage :: UsageStats where
  "empty_usage =
     \<lparr>total_input_tokens = 0, total_output_tokens = 0, requests = 0, failures = 0,
      total_latency = 0\<rparr>"

section \<open>Characters and words (the C locale's \<^verbatim>\<open><cctype>\<close> and stream extraction)\<close>

definition tolower :: "char \<Rightarrow> char" where
  "tolower c =
     (let n = (of_char c :: nat) in if 65 \<le> n \<and> n \<le> 90 then char_of (n + 32) else c)"

definition isspace :: "char \<Rightarrow> bool" where
  "isspace c = (let n = (of_char c :: nat) in n = 32 \<or> (9 \<le> n \<and> n \<le> 13))"


definition ispunct :: "char \<Rightarrow> bool" where
  "ispunct c =
     (let n = (of_char c :: nat) in
        (33 \<le> n \<and> n \<le> 47) \<or> (58 \<le> n \<and> n \<le> 64) \<or> (91 \<le> n \<and> n \<le> 96)
        \<or> (123 \<le> n \<and> n \<le> 126))"

text \<open>\<^verbatim>\<open>while (iss >> word)\<close>: the maximal runs of non-space characters, in order.
  \<open>cur\<close> is the run being read, reversed.\<close>

fun split_words :: "string \<Rightarrow> string \<Rightarrow> string list" where
  "split_words [] cur = (if cur = [] then [] else [rev cur])"
| "split_words (c # cs) cur =
     (if isspace c
      then (if cur = [] then split_words cs [] else rev cur # split_words cs [])
      else split_words cs (c # cur))"

text \<open>\<^verbatim>\<open>s.find(p) != npos\<close>: whether \<open>p\<close> occurs in \<open>s\<close> as a contiguous substring.\<close>

fun starts_with :: "string \<Rightarrow> string \<Rightarrow> bool" where
  "starts_with [] s = True"
| "starts_with (a # p) [] = False"
| "starts_with (a # p) (b # s) = (a = b \<and> starts_with p s)"

fun find_in :: "string \<Rightarrow> string \<Rightarrow> bool" where
  "find_in p [] = (p = [])"
| "find_in p (c # cs) = (starts_with p (c # cs) \<or> find_in p cs)"

section \<open>Episodes (memory/episodic_memory.hpp)\<close>

record EpisodeAction =
  ea_tool :: string
  ea_arguments :: json
  ea_success :: bool
  ea_error :: "string option"
  ea_result_summary :: string
  ea_execution_time :: int
  ea_timestamp :: int

section \<open>TRMModel (trm/trm_model.hpp, src/trm/trm_model.cpp)\<close>

text \<open>
  Scores and confidences are 32-bit floats in the source. The model computes with real
  numbers: rounding is not modelled.
\<close>

datatype TRMStatus = NotInitialized | ColdStart | Training | Ready | Fallback

record TRMPrediction =
  recommended_tool :: string
  confidence :: real
  ranked_tools :: "(string \<times> real) list"

definition tool_keywords :: "(string \<times> string list) list" where
  "tool_keywords =
     [(''file_read'', [''read'', ''file'', ''content'', ''show'', ''view'', ''cat'', ''look'',
                       ''see'', ''check'', ''open'', ''text'']),
      (''file_write'', [''write'', ''create'', ''save'', ''new'', ''file'', ''output'',
                        ''generate'']),
      (''file_edit'', [''edit'', ''modify'', ''change'', ''update'', ''fix'', ''replace'',
                       ''refactor'']),
      (''bash'', [''run'', ''execute'', ''command'', ''shell'', ''terminal'', ''script'',
                  ''install'', ''build'', ''compile'', ''test'']),
      (''grep'', [''search'', ''find'', ''grep'', ''look'', ''locate'', ''pattern'', ''match'',
                  ''where'', ''code'']),
      (''glob'', [''files'', ''list'', ''find'', ''pattern'', ''directory'', ''folder'', ''ls'']),
      (''image_read'', [''image'', ''picture'', ''photo'', ''screenshot'', ''png'', ''jpg'',
                        ''jpeg'', ''gif'', ''see'', ''look'', ''show'', ''visual'']),
      (''web_search'', [''search'', ''web'', ''internet'', ''google'', ''online'', ''find'',
                        ''lookup'', ''query'', ''information'']),
      (''web_fetch'', [''fetch'', ''url'', ''website'', ''page'', ''download'', ''http'',
                       ''link'', ''browse'', ''visit''])]"

text \<open>The set of query words: punctuation removed, words of at most two characters
  skipped.\<close>

definition query_words :: "string \<Rightarrow> string set" where
  "query_words lower_query =
     set (filter (\<lambda>w. length w > 2)
            (map (filter (\<lambda>c. \<not> ispunct c)) (split_words lower_query [])))"

definition tool_score :: "string \<Rightarrow> string set \<Rightarrow> string \<Rightarrow> real" where
  "tool_score lower_query qwords tool =
     (if find_in (map tolower tool) lower_query then 0.5 else 0)
     + (case map_of tool_keywords tool of
          None \<Rightarrow> 0
        | Some kws \<Rightarrow>
            if kws \<noteq> []
            then real (length (filter (\<lambda>keyword. keyword \<in> qwords) kws))
                 / real (length kws) * 0.5
            else 0)"

text \<open>
  \<^verbatim>\<open>std::sort\<close> with the comparison \<^verbatim>\<open>a.second > b.second\<close> is a function of the
  standard library: it permutes the entries into descending order of score, and the order
  it gives to entries of equal score is unspecified. The functions that sort take it as
  the parameter \<open>srt\<close>, and \<open>sorts_descending\<close> is what the library promises of it.
\<close>

type_synonym Sorter = "(string \<times> real) list \<Rightarrow> (string \<times> real) list"

definition sorts_descending :: "Sorter \<Rightarrow> bool" where
  "sorts_descending srt \<longleftrightarrow>
     (\<forall>xs. mset (srt xs) = mset xs \<and> sorted_wrt (\<lambda>a b. snd a \<ge> snd b) (srt xs))"

text \<open>One such function, which keeps entries of equal score in their previous order.\<close>

definition sort_desc :: Sorter where
  "sort_desc xs = sort_key (\<lambda>p. - snd p) xs"

text \<open>The vector \<^verbatim>\<open>scores\<close> of \<^verbatim>\<open>keyword_match\<close> before it is sorted.\<close>

definition tool_scores :: "string \<Rightarrow> string list \<Rightarrow> (string \<times> real) list" where
  "tool_scores query tools =
     (let lower_query = map tolower query;
          qwords = query_words lower_query
      in map (\<lambda>tool. (tool, tool_score lower_query qwords tool)) tools)"

definition keyword_match :: "Sorter \<Rightarrow> string \<Rightarrow> string list \<Rightarrow> (string \<times> real) list" where
  "keyword_match srt query tools = srt (tool_scores query tools)"

text \<open>
  \<^verbatim>\<open>fallback_predict\<close>. A \<^verbatim>\<open>TRMPrediction\<close> is declared without initialiser, so its
  \<^verbatim>\<open>confidence\<close> is indeterminate until assigned; \<open>indet\<close> stands for that value.
\<close>

definition fallback_predict ::
  "Sorter \<Rightarrow> real \<Rightarrow> string \<Rightarrow> string list \<Rightarrow> TRMPrediction" where
  "fallback_predict srt indet task_context available_tools =
     (let ranked = keyword_match srt task_context available_tools in
      if ranked \<noteq> [] then
        \<lparr>recommended_tool = fst (hd ranked), confidence = snd (hd ranked) * 0.5,
         ranked_tools = ranked\<rparr>
      else if available_tools \<noteq> [] then
        \<lparr>recommended_tool = hd available_tools, confidence = 0.1,
         ranked_tools = map (\<lambda>tool. (tool, 0.1)) available_tools\<rparr>
      else \<lparr>recommended_tool = [], confidence = indet, ranked_tools = []\<rparr>)"

text \<open>
  The loop that fills \<^verbatim>\<open>history_scores\<close>: \<open>recency\<close> starts at the length of the history
  and is decremented after each action, so the first action of the history gets the
  length as its weight and the last one gets 1.
\<close>

fun history_scores ::
  "EpisodeAction list \<Rightarrow> int \<Rightarrow> (string \<Rightarrow> int option) \<Rightarrow> (string \<Rightarrow> int option)" where
  "history_scores [] recency m = m"
| "history_scores (action # rest) recency m =
     history_scores rest (recency - 1)
       (m(ea_tool action \<mapsto> value_or (m (ea_tool action)) 0 + recency))"

definition apply_boost ::
  "real \<Rightarrow> EpisodeAction list \<Rightarrow> (string \<times> real) \<Rightarrow> (string \<times> real)" where
  "apply_boost factor history p =
     (case history_scores history (int (length history)) Map.empty (fst p) of
        None \<Rightarrow> p
      | Some w \<Rightarrow> (fst p, min 1 (snd p + real_of_int w / real (length history) * factor)))"

definition predict ::
  "Sorter \<Rightarrow> TRMStatus \<Rightarrow> real \<Rightarrow> string \<Rightarrow> string list \<Rightarrow> EpisodeAction list
     \<Rightarrow> TRMPrediction option" where
  "predict srt status indet task_context available_tools history =
     (if status = ColdStart then
        (let prediction = fallback_predict srt indet task_context available_tools in
         if history \<noteq> [] then
           (let ranked = srt (map (apply_boost 0.15 history) (ranked_tools prediction)) in
            if ranked \<noteq> [] then
              Some \<lparr>recommended_tool = fst (hd ranked), confidence = snd (hd ranked),
                    ranked_tools = ranked\<rparr>
            else Some (prediction\<lparr>ranked_tools := ranked\<rparr>))
         else Some prediction)
      else if status \<noteq> Ready then None
      else
        (let ranked0 = keyword_match srt task_context available_tools;
             ranked = (if history \<noteq> []
                       then srt (map (apply_boost 0.2 history) ranked0)
                       else ranked0)
         in if ranked \<noteq> [] then
              Some \<lparr>recommended_tool = fst (hd ranked), confidence = snd (hd ranked),
                    ranked_tools = ranked\<rparr>
            else Some \<lparr>recommended_tool = [], confidence = indet, ranked_tools = ranked\<rparr>))"

text \<open>
  A history as the orchestrator passes it: \<^verbatim>\<open>record_action\<close> appends each action to
  \<^verbatim>\<open>current_actions_\<close>, so the oldest action comes first. Here a \<^verbatim>\<open>bash\<close> action was
  followed by a \<^verbatim>\<open>grep\<close> action.
\<close>

definition sample_history :: "EpisodeAction list" where
  "sample_history =
     [\<lparr>ea_tool = ''bash'', ea_arguments = JObject [(''command'', JString ''make'')],
       ea_success = True, ea_error = None, ea_result_summary = ''ok'',
       ea_execution_time = 0, ea_timestamp = 1\<rparr>,
      \<lparr>ea_tool = ''grep'', ea_arguments = JObject [(''pattern'', JString ''main'')],
       ea_success = True, ea_error = None, ea_result_summary = ''ok'',
       ea_execution_time = 0, ea_timestamp = 2\<rparr>]"

text \<open>
  \<^verbatim>\<open>load\<close> and \<^verbatim>\<open>save\<close> act on the file system. Its state is the set of existing paths
  and the contents of files. Whether the operating system lets a directory be created or
  a file be opened is not decided by the program: \<open>mkdir_error\<close> is the error text of
  \<^verbatim>\<open>create_directories\<close> if it fails, \<open>open_ok\<close> tells whether the output stream opens.
  \<open>parent_path\<close> is \<^verbatim>\<open>std::filesystem::path::parent_path\<close>.
\<close>

record FileSystem =
  fs_exists :: "string set"
  fs_contents :: "string \<Rightarrow> string option"

definition load :: "FileSystem \<Rightarrow> TRMStatus \<Rightarrow> string \<Rightarrow> (Error + unit) \<times> TRMStatus" where
  "load fs status path =
     (if path \<notin> fs_exists fs
      then (Inl (error2 FileNotFound (''Model file not found: '' @ path)), status)
      else (Inr (), Ready))"

definition save ::
  "(string \<Rightarrow> string) \<Rightarrow> string option \<Rightarrow> bool \<Rightarrow> FileSystem \<Rightarrow> TRMStatus \<Rightarrow> string
     \<Rightarrow> (Error + unit) \<times> FileSystem" where
  "save parent_path mkdir_error open_ok fs status path =
     (if status \<noteq> Ready \<and> status \<noteq> Training
      then (Inl (error2 InvalidState ''Cannot save model that is not initialized''), fs)
      else
        (let parent = parent_path path;
             need_dir = (parent \<noteq> [] \<and> parent \<notin> fs_exists fs)
         in if need_dir \<and> mkdir_error \<noteq> None
            then (Inl (error2 FileWriteFailed
                         (''Failed to create model directory: '' @ the mkdir_error)), fs)
            else
              (let fs1 = (if need_dir then fs\<lparr>fs_exists := insert parent (fs_exists fs)\<rparr>
                          else fs)
               in if \<not> open_ok
                  then (Inl (error2 FileWriteFailed
                               (''Failed to open model file for writing: '' @ path)), fs1)
                  else (Inr (),
                        fs1\<lparr>fs_exists := insert path (fs_exists fs1),
                            fs_contents := (fs_contents fs1)(path \<mapsto> ''GPAGENT_TRM_V1'')\<rparr>))))"

definition empty_fs :: FileSystem where
  "empty_fs = \<lparr>fs_exists = {}, fs_contents = Map.empty\<rparr>"

text \<open>A simple \<open>parent_path\<close> for the samples: the part before the last slash.\<close>

definition sample_parent :: "string \<Rightarrow> string" where
  "sample_parent path = rev (tl (dropWhile (\<lambda>c. c \<noteq> CHR ''/'') (rev path)))"

section \<open>Episode serialisation (src/memory/episodic_memory.cpp)\<close>

record EpisodeOutcome =
  oc_success :: bool
  oc_turns_taken :: int
  oc_tools_used :: int
  oc_total_time :: int
  oc_duration :: int
  oc_summary :: string
  oc_failure_reason :: "string option"

record Episode =
  ep_id :: string
  ep_timestamp :: int
  ep_started_at :: int
  ep_completed_at :: int
  ep_task_description :: string
  ep_task_category :: string
  ep_project :: string
  ep_files_involved :: "string list"
  ep_initial_context :: "string option"
  ep_actions :: "EpisodeAction list"
  ep_outcome :: EpisodeOutcome
  ep_learnings :: "string list"
  ep_keywords :: "string list"

text \<open>
  The accessors of the JSON library, with a thrown \<^verbatim>\<open>Json::exception\<close> as \<open>None\<close>.
  \<^verbatim>\<open>j.value(key, default)\<close> throws on a value that is not an object, returns the default
  for a missing key and converts the member otherwise; \<^verbatim>\<open>get<T>()\<close> throws on a value of
  another kind. A conversion to \<^verbatim>\<open>int\<close> also accepts booleans and floats and keeps the low
  32 bits of an integer.
\<close>

definition to_int32 :: "int \<Rightarrow> int" where
  "to_int32 n = signed_take_bit 31 n"

fun get_string :: "json \<Rightarrow> string option" where
  "get_string (JString s) = Some s"
| "get_string _ = None"

fun get_bool :: "json \<Rightarrow> bool option" where
  "get_bool (JBool b) = Some b"
| "get_bool _ = None"

fun get_int :: "json \<Rightarrow> int option" where
  "get_int (JInt n) = Some (to_int32 n)"
| "get_int (JFloat x) = Some (to_int32 (if x < 0 then - \<lfloor>- x\<rfloor> else \<lfloor>x\<rfloor>))"
| "get_int (JBool b) = Some (if b then 1 else 0)"
| "get_int _ = None"

fun get_int64 :: "json \<Rightarrow> int option" where
  "get_int64 (JInt n) = Some n"
| "get_int64 (JFloat x) = Some (if x < 0 then - \<lfloor>- x\<rfloor> else \<lfloor>x\<rfloor>)"
| "get_int64 _ = None"

fun get_strings :: "json list \<Rightarrow> string list option" where
  "get_strings [] = Some []"
| "get_strings (j # js) =
     (case get_string j of
        None \<Rightarrow> None
      | Some s \<Rightarrow> (case get_strings js of None \<Rightarrow> None | Some ss \<Rightarrow> Some (s # ss)))"

fun get_string_vector :: "json \<Rightarrow> string list option" where
  "get_string_vector (JArray js) = get_strings js"
| "get_string_vector _ = None"

definition value_with :: "(json \<Rightarrow> 'a option) \<Rightarrow> json \<Rightarrow> string \<Rightarrow> 'a \<Rightarrow> 'a option" where
  "value_with conv j key d =
     (case j of
        JObject kvs \<Rightarrow> (case map_of kvs key of None \<Rightarrow> Some d | Some v \<Rightarrow> conv v)
      | _ \<Rightarrow> None)"

text \<open>\<^verbatim>\<open>j[key].get<T>()\<close> under \<^verbatim>\<open>if (j.contains(key))\<close>: the old value is kept when the
  key is missing.\<close>

definition get_if_contains :: "(json \<Rightarrow> 'a option) \<Rightarrow> json \<Rightarrow> string \<Rightarrow> 'a \<Rightarrow> 'a option" where
  "get_if_contains conv j key old =
     (case lookup j key of None \<Rightarrow> Some old | Some v \<Rightarrow> conv v)"

definition get_optional :: "json \<Rightarrow> string \<Rightarrow> string option option" where
  "get_optional j key =
     (case lookup j key of None \<Rightarrow> Some None | Some v \<Rightarrow> map_option Some (get_string v))"

text \<open>The elements a range-based \<^verbatim>\<open>for\<close> visits in a JSON value.\<close>

fun elements :: "json \<Rightarrow> json list" where
  "elements (JArray js) = js"
| "elements (JObject kvs) = map snd kvs"
| "elements JNull = []"
| "elements j = [j]"

text \<open>
  Time points count the ticks of the system clock, which are nanoseconds here; the
  serialised form counts whole seconds, rounded towards zero. A time point is a signed
  64-bit count in the source, so the product of \<open>from_seconds\<close> is defined there only
  while it fits, that is for less than \<open>2 ^ 63 div 1000000000\<close> seconds (about 9.2e9) in
  absolute value; the model's product is unbounded. The seconds that \<open>to_seconds\<close> gives
  for a 64-bit time point are always within that range.
\<close>

definition ticks_per_second :: int where
  "ticks_per_second = 1000000000"

definition to_seconds :: "int \<Rightarrow> int" where
  "to_seconds t =
     (if t < 0 then - ((- t) div ticks_per_second) else t div ticks_per_second)"

definition from_seconds :: "int \<Rightarrow> int" where
  "from_seconds n = n * ticks_per_second"

definition strings_json :: "string list \<Rightarrow> json" where
  "strings_json ss = JArray (map JString ss)"

definition action_to_json :: "EpisodeAction \<Rightarrow> json" where
  "action_to_json a =
     JObject ([(''tool'', JString (ea_tool a)),
               (''arguments'', ea_arguments a),
               (''success'', JBool (ea_success a)),
               (''execution_time_ms'', JInt (ea_execution_time a))]
              @ (case ea_error a of None \<Rightarrow> [] | Some e \<Rightarrow> [(''error'', JString e)]))"

definition action_from_json :: "json \<Rightarrow> EpisodeAction option" where
  "action_from_json j =
     do {
       tool \<leftarrow> value_with get_string j ''tool'' [];
       arguments \<leftarrow> value_with Some j ''arguments'' (JObject []);
       success \<leftarrow> value_with get_bool j ''success'' True;
       execution_time \<leftarrow> value_with get_int j ''execution_time_ms'' 0;
       error \<leftarrow> get_optional j ''error'';
       Some \<lparr>ea_tool = tool, ea_arguments = arguments, ea_success = success,
             ea_error = error, ea_result_summary = [], ea_execution_time = execution_time,
             ea_timestamp = 0\<rparr>
     }"

definition outcome_to_json :: "EpisodeOutcome \<Rightarrow> json" where
  "outcome_to_json out =
     JObject ([(''success'', JBool (oc_success out)),
               (''turns_taken'', JInt (oc_turns_taken out)),
               (''tools_used'', JInt (oc_tools_used out)),
               (''total_time_ms'', JInt (oc_total_time out))]
              @ (case oc_failure_reason out of
                   None \<Rightarrow> [] | Some r \<Rightarrow> [(''failure_reason'', JString r)]))"

definition default_outcome :: EpisodeOutcome where
  "default_outcome =
     \<lparr>oc_success = False, oc_turns_taken = 0, oc_tools_used = 0, oc_total_time = 0,
      oc_duration = 0, oc_summary = [], oc_failure_reason = None\<rparr>"

definition outcome_from_json :: "json \<Rightarrow> EpisodeOutcome option" where
  "outcome_from_json j =
     do {
       success \<leftarrow> value_with get_bool j ''success'' False;
       turns_taken \<leftarrow> value_with get_int j ''turns_taken'' 0;
       tools_used \<leftarrow> value_with get_int j ''tools_used'' 0;
       total_time \<leftarrow> value_with get_int j ''total_time_ms'' 0;
       failure_reason \<leftarrow> get_optional j ''failure_reason'';
       Some (default_outcome\<lparr>oc_success := success, oc_turns_taken := turns_taken,
               oc_tools_used := tools_used, oc_total_time := total_time,
               oc_failure_reason := failure_reason\<rparr>)
     }"

definition to_json :: "Episode \<Rightarrow> json" where
  "to_json e =
     JObject ([(''id'', JString (ep_id e)),
               (''timestamp'', JInt (to_seconds (ep_timestamp e))),
               (''task_description'', JString (ep_task_description e)),
               (''task_category'', JString (ep_task_category e)),
               (''project'', JString (ep_project e)),
               (''files_involved'', strings_json (ep_files_involved e)),
               (''outcome'', outcome_to_json (ep_outcome e)),
               (''learnings'', strings_json (ep_learnings e)),
               (''keywords'', strings_json (ep_keywords e))]
              @ (case ep_initial_context e of
                   None \<Rightarrow> [] | Some c \<Rightarrow> [(''initial_context'', JString c)])
              @ [(''actions'', JArray (map action_to_json (ep_actions e)))])"

fun actions_from_json :: "json list \<Rightarrow> EpisodeAction list option" where
  "actions_from_json [] = Some []"
| "actions_from_json (j # js) =
     (case action_from_json j of
        None \<Rightarrow> None
      | Some a \<Rightarrow> (case actions_from_json js of None \<Rightarrow> None | Some as \<Rightarrow> Some (a # as)))"

definition from_json :: "json \<Rightarrow> Episode option" where
  "from_json j =
     do {
       episode_id \<leftarrow> value_with get_string j ''id'' [];
       task_description \<leftarrow> value_with get_string j ''task_description'' [];
       task_category \<leftarrow> value_with get_string j ''task_category'' [];
       project \<leftarrow> value_with get_string j ''project'' [];
       timestamp \<leftarrow> get_if_contains (map_option from_seconds \<circ> get_int64) j ''timestamp'' 0;
       files_involved \<leftarrow> get_if_contains get_string_vector j ''files_involved'' [];
       initial_context \<leftarrow> get_optional j ''initial_context'';
       actions \<leftarrow> (case lookup j ''actions'' of
                     None \<Rightarrow> Some []
                   | Some js \<Rightarrow> actions_from_json (elements js));
       outcome \<leftarrow> get_if_contains outcome_from_json j ''outcome'' default_outcome;
       learnings \<leftarrow> get_if_contains get_string_vector j ''learnings'' [];
       keywords \<leftarrow> get_if_contains get_string_vector j ''keywords'' [];
       Some \<lparr>ep_id = episode_id, ep_timestamp = timestamp, ep_started_at = 0, ep_completed_at = 0,
             ep_task_description = task_description, ep_task_category = task_category,
             ep_project = project, ep_files_involved = files_involved,
             ep_initial_context = initial_context, ep_actions = actions,
             ep_outcome = outcome, ep_learnings = learnings, ep_keywords = keywords\<rparr>
     }"

text \<open>A sample episode as the orchestrator records one: a single action with its result
  summary.\<close>

definition sample_action :: EpisodeAction where
  "sample_action =
     \<lparr>ea_tool = ''bash'', ea_arguments = JObject [(''command'', JString ''ls'')],
      ea_success = True, ea_error = None, ea_result_summary = ''ok'',
      ea_execution_time = 0, ea_timestamp = 0\<rparr>"

definition sample_episode :: Episode where
  "sample_episode =
     \<lparr>ep_id = ''ep_1'', ep_timestamp = 0, ep_started_at = 0, ep_completed_at = 0,
      ep_task_description = ''List the files'', ep_task_category = [], ep_project = [],
      ep_files_involved = [], ep_initial_context = None, ep_actions = [sample_action],
      ep_outcome = default_outcome\<lparr>oc_success := True\<rparr>, ep_learnings = [],
      ep_keywords = []\<rparr>"

section \<open>EpisodicMemory: the index (src/memory/episodic_memory.cpp)\<close>














text \<open>The sample episode, finished one and a half seconds after the epoch.\<close>

definition sample_episode_late :: Episode where
  "sample_episode_late = sample_episode\<lparr>ep_timestamp := 1500000000\<rparr>"

section \<open>ContextBuilder (context/context_manager.hpp, src/context/context_manager.cpp)\<close>

record ContextConfig =
  max_tokens :: int
  compaction_threshold :: int
  keep_raw_turns :: int
  summarize_batch :: int
  reserved_for_response :: int

text \<open>The builder's fields, as the \<^verbatim>\<open>with_...\<close> setters leave them.\<close>

record ContextBuilder =
  cb_config :: ContextConfig
  cb_system_prompt :: string
  cb_user_memory :: string
  cb_project_memory :: string
  cb_compressed_history :: string
  cb_messages :: "Message list"
  cb_tools :: json
  cb_episodes_context :: string
  cb_task_context :: string

record ContextWindow =
  cw_system_prompt :: string
  cw_messages :: "Message list"
  cw_tools :: json
  cw_estimated_tokens :: int
  cw_was_compacted :: bool

text \<open>
  \<^verbatim>\<open>static_cast<int>(text.length() / 3.5)\<close>: the length is divided as a double and the
  quotient truncated. For a length \<open>n\<close> the exact quotient is \<open>2n/7\<close>, which is either an
  integer or at least \<open>1/7\<close> away from one, so the rounding of the division cannot change
  its integer part: the result is \<open>2n div 7\<close>. Token counts are \<^verbatim>\<open>int\<close>s in the source;
  the model does not bound them.
\<close>

definition estimate_tokens :: "string \<Rightarrow> int" where
  "estimate_tokens text = int ((2 * length text) div 7)"

text \<open>\<open>dump\<close> is the JSON library's serialiser (\<^verbatim>\<open>Json::dump()\<close>), taken as a parameter.\<close>

definition estimate_message_tokens :: "(json \<Rightarrow> string) \<Rightarrow> Message \<Rightarrow> int" where
  "estimate_message_tokens dump msg =
     3 + estimate_tokens (msg_content msg)
     + sum_list (map (\<lambda>tc. 10 + estimate_tokens (tc_tool_name tc)
                              + estimate_tokens (dump (tc_arguments tc)))
                  (msg_tool_calls msg))"

text \<open>\<^verbatim>\<open>Json::empty()\<close>: true for null and for an array or object without elements.\<close>

fun json_empty :: "json \<Rightarrow> bool" where
  "json_empty JNull = True"
| "json_empty (JArray js) = (js = [])"
| "json_empty (JObject kvs) = (kvs = [])"
| "json_empty _ = False"

definition estimated_tokens :: "(json \<Rightarrow> string) \<Rightarrow> ContextBuilder \<Rightarrow> int" where
  "estimated_tokens dump b =
     estimate_tokens (cb_system_prompt b)
     + estimate_tokens (cb_user_memory b)
     + estimate_tokens (cb_project_memory b)
     + estimate_tokens (cb_compressed_history b)
     + estimate_tokens (cb_episodes_context b)
     + estimate_tokens (cb_task_context b)
     + sum_list (map (estimate_message_tokens dump) (cb_messages b))
     + (if \<not> json_empty (cb_tools b) then estimate_tokens (dump (cb_tools b)) else 0)"

text \<open>\<^verbatim>\<open>std::to_string\<close> on an \<^verbatim>\<open>int\<close>.\<close>

fun nat_to_string :: "nat \<Rightarrow> string" where
  "nat_to_string n =
     (if n < 10 then [char_of (48 + n)]
      else nat_to_string (n div 10) @ [char_of (48 + n mod 10)])"

declare nat_to_string.simps [simp del]

definition to_string :: "int \<Rightarrow> string" where
  "to_string i =
     (if i < 0 then CHR ''-'' # nat_to_string (nat (- i)) else nat_to_string (nat i))"

definition build_system_prompt :: "ContextBuilder \<Rightarrow> string" where
  "build_system_prompt b =
     cb_system_prompt b
     @ (if cb_user_memory b \<noteq> []
        then ''\<newline>\<newline>## User Memory\<newline>'' @ cb_user_memory b else [])
     @ (if cb_project_memory b \<noteq> []
        then ''\<newline>\<newline>## Project Memory\<newline>'' @ cb_project_memory b else [])
     @ (if cb_compressed_history b \<noteq> []
        then ''\<newline>\<newline>## Conversation History Summary\<newline>'' @ cb_compressed_history b
        else [])
     @ (if cb_episodes_context b \<noteq> []
        then ''\<newline>\<newline>'' @ cb_episodes_context b else [])
     @ (if cb_task_context b \<noteq> []
        then ''\<newline>\<newline>## Current Task\<newline>'' @ cb_task_context b else [])"

definition build :: "(json \<Rightarrow> string) \<Rightarrow> ContextBuilder \<Rightarrow> Error + ContextWindow" where
  "build dump b =
     (let window = \<lparr>cw_system_prompt = build_system_prompt b,
                    cw_messages = cb_messages b,
                    cw_tools = cb_tools b,
                    cw_estimated_tokens = estimated_tokens dump b,
                    cw_was_compacted = False\<rparr>
      in if cw_estimated_tokens window > max_tokens (cb_config b)
         then Inl (error2 ContextTooLarge
                     (''Context exceeds maximum tokens: ''
                      @ to_string (cw_estimated_tokens window) @ '' > ''
                      @ to_string (max_tokens (cb_config b))))
         else Inr window)"

text \<open>
  The estimate as the specification words it: characters divided by 3.5 for each text
  layer, 3 for each message, and for each tool call 10 plus the estimate of its argument
  JSON.
\<close>

definition spec_message_tokens :: "(json \<Rightarrow> string) \<Rightarrow> Message \<Rightarrow> int" where
  "spec_message_tokens dump msg =
     3 + estimate_tokens (msg_content msg)
     + sum_list (map (\<lambda>tc. 10 + estimate_tokens (dump (tc_arguments tc))) (msg_tool_calls msg))"

definition spec_estimated_tokens :: "(json \<Rightarrow> string) \<Rightarrow> ContextBuilder \<Rightarrow> int" where
  "spec_estimated_tokens dump b =
     estimate_tokens (cb_system_prompt b)
     + estimate_tokens (cb_user_memory b)
     + estimate_tokens (cb_project_memory b)
     + estimate_tokens (cb_compressed_history b)
     + estimate_tokens (cb_episodes_context b)
     + estimate_tokens (cb_task_context b)
     + sum_list (map (spec_message_tokens dump) (cb_messages b))"

text \<open>
  A sample builder: no text layers, no tools, and one assistant message that calls
  \<^verbatim>\<open>file_read\<close> with an empty argument object. The samples need the serialiser only on
  the empty object, which it writes as \<^verbatim>\<open>{}\<close>.
\<close>

definition sample_dump :: "json \<Rightarrow> string" where
  "sample_dump j = (if j = JObject [] then ''{}'' else ''null'')"

definition sample_builder :: "int \<Rightarrow> ContextBuilder" where
  "sample_builder limit =
     \<lparr>cb_config = \<lparr>max_tokens = limit, compaction_threshold = 0, keep_raw_turns = 10,
                   summarize_batch = 21, reserved_for_response = 0\<rparr>,
      cb_system_prompt = [], cb_user_memory = [], cb_project_memory = [],
      cb_compressed_history = [],
      cb_messages =
        [\<lparr>msg_role = Assistant, msg_content = [], msg_name = None,
          msg_tool_calls =
            [\<lparr>tc_id = ''tc_1'', tc_tool_name = ''file_read'', tc_arguments = JObject []\<rparr>],
          msg_tool_call_id = None, msg_images = [], msg_timestamp = 0\<rparr>],
      cb_tools = JNull, cb_episodes_context = [], cb_task_context = []\<rparr>"

section \<open>Compaction (src/memory/thread_memory.cpp, src/context/context_manager.cpp)\<close>

record Summary =
  sm_start_turn :: nat
  sm_end_turn :: nat
  sm_content :: string
  sm_created_at :: int

text \<open>\<^verbatim>\<open>CompressedHistory::add_summary\<close>; \<open>now\<close> is the clock reading.\<close>

definition add_summary :: "Summary list \<Rightarrow> nat \<Rightarrow> nat \<Rightarrow> string \<Rightarrow> int \<Rightarrow> Summary list" where
  "add_summary summaries start_turn end_turn content now =
     summaries @ [\<lparr>sm_start_turn = start_turn, sm_end_turn = end_turn, sm_content = content,
                   sm_created_at = now\<rparr>]"

definition get_range :: "Message list \<Rightarrow> nat \<Rightarrow> nat \<Rightarrow> Message list" where
  "get_range messages start end =
     (if start \<ge> length messages then []
      else take (min end (length messages) - start) (drop start messages))"

definition trim :: "Message list \<Rightarrow> nat \<Rightarrow> Message list" where
  "trim messages keep_last =
     (if length messages > keep_last
      then drop (length messages - keep_last) messages
      else messages)"

definition role_to_string :: "Role \<Rightarrow> string" where
  "role_to_string r =
     (case r of System \<Rightarrow> ''system'' | User \<Rightarrow> ''user'' | Assistant \<Rightarrow> ''assistant''
      | Tool \<Rightarrow> ''tool'')"

definition summarization_prompt :: string where
  "summarization_prompt =
     ''You are a conversation summarizer. Summarize the following conversation excerpt concisely, focusing on:\<newline>''
     @ ''1. Key decisions made\<newline>''
     @ ''2. Important information learned\<newline>''
     @ ''3. Actions taken and their outcomes\<newline>''
     @ ''4. Any pending items or context needed for future turns\<newline>\<newline>''
     @ ''Be concise but preserve all important details. Output only the summary, no preamble.''"

definition conversation_text :: "Message list \<Rightarrow> string" where
  "conversation_text messages =
     concat (map (\<lambda>msg. role_to_string (msg_role msg) @ '': '' @ msg_content msg @ ''\<newline>''
                         @ concat (map (\<lambda>tc. ''[Tool: '' @ tc_tool_name tc @ '']\<newline>'')
                                     (msg_tool_calls msg))
                         @ ''\<newline>'')
              messages)"

text \<open>
  \<^verbatim>\<open>ContextCompactor::compact_messages\<close>. The summariser is the gateway's summarisation
  provider, if there is one; \<open>now\<close> stamps the request's message.
\<close>

definition compact_messages ::
  "LLMProvider option \<Rightarrow> int \<Rightarrow> Message list \<Rightarrow> int \<Rightarrow> int \<Rightarrow> Error + string" where
  "compact_messages summarizer now messages start_idx end_idx =
     (if start_idx \<ge> end_idx \<or> start_idx < 0 \<or> end_idx > int (length messages)
      then Inl (error2 InvalidArgument ''Invalid message range for compaction'')
      else
        (let conv = conversation_text
                      (take (nat (end_idx - start_idx)) (drop (nat start_idx) messages));
             request =
               \<lparr>req_messages =
                  [\<lparr>msg_role = User, msg_content = conv, msg_name = None, msg_tool_calls = [],
                    msg_tool_call_id = None, msg_images = [], msg_timestamp = now\<rparr>],
                req_system_prompt = summarization_prompt, req_tools = JNull,
                req_max_tokens = 1000, req_temperature = 0.3, req_stop_sequences = [],
                req_provider_options = JNull\<rparr>
         in case summarizer of
              None \<Rightarrow> Inl (error2 LLMProviderUnavailable ''No summarization provider available'')
            | Some p \<Rightarrow>
                (case prov_complete p request of
                   Inl e \<Rightarrow> Inl e
                 | Inr response \<Rightarrow> Inr (resp_content response))))"

text \<open>The conversion of an \<^verbatim>\<open>int\<close> to \<^verbatim>\<open>size_t\<close> (64 bits).\<close>

definition to_size_t :: "int \<Rightarrow> nat" where
  "to_size_t i = nat (i mod 2 ^ 64)"

text \<open>
  The state \<^verbatim>\<open>compact_if_needed\<close> works on: the thread's messages and the summaries of
  the compressed history.
\<close>

record CompactionState =
  cs_messages :: "Message list"
  cs_summaries :: "Summary list"

text \<open>
  The batch loop of \<^verbatim>\<open>compact_if_needed\<close>. With a batch size of 0 the loop never
  advances; not returning is the value \<open>None\<close>. Turn numbers are positions in the current
  thread. (\<^verbatim>\<open>compact_start + batch_size\<close> cannot wrap around unless the thread holds
  more than \<open>2^63\<close> messages.) \<open>clock\<close> gives the clock reading taken for the batch that
  starts at a position.
\<close>

partial_function (option) compact_loop ::
  "LLMProvider option \<Rightarrow> (nat \<Rightarrow> int) \<Rightarrow> Message list \<Rightarrow> nat \<Rightarrow> nat \<Rightarrow> nat \<Rightarrow> Summary list
     \<Rightarrow> Summary list option" where
  "compact_loop summarizer clock messages batch_size compact_end compact_start summaries =
     (if compact_start < compact_end then
        (let batch_end = min (compact_start + batch_size) compact_end;
             batch_messages = get_range messages compact_start batch_end;
             summary_result =
               compact_messages summarizer (clock compact_start) batch_messages
                 0 (int (length batch_messages));
             summaries' =
               (case summary_result of
                  Inr content \<Rightarrow>
                    add_summary summaries compact_start batch_end content (clock compact_start)
                | Inl e \<Rightarrow> summaries)
         in compact_loop summarizer clock messages batch_size compact_end batch_end summaries')
      else Some summaries)"

definition compact_if_needed ::
  "ContextConfig \<Rightarrow> LLMProvider option \<Rightarrow> (nat \<Rightarrow> int) \<Rightarrow> CompactionState
     \<Rightarrow> CompactionState option" where
  "compact_if_needed cfg summarizer clock st =
     (let tokens = sum_list (map (\<lambda>msg. estimate_tokens (msg_content msg)) (cs_messages st)) in
      if \<not> tokens > compaction_threshold cfg then Some st
      else
        (let total_messages = length (cs_messages st);
             keep_raw = to_size_t (keep_raw_turns cfg * 2)
         in if total_messages \<le> keep_raw then Some st
            else
              (case compact_loop summarizer clock (cs_messages st)
                      (to_size_t (summarize_batch cfg)) (total_messages - keep_raw) 0
                      (cs_summaries st) of
                 None \<Rightarrow> None
               | Some summaries \<Rightarrow>
                   Some \<lparr>cs_messages = trim (cs_messages st) keep_raw,
                         cs_summaries = summaries\<rparr>)))"

text \<open>\<^verbatim>\<open>ThreadMemory::append\<close> on the state.\<close>

definition append_message :: "CompactionState \<Rightarrow> Message \<Rightarrow> CompactionState" where
  "append_message st m = st\<lparr>cs_messages := cs_messages st @ [m]\<rparr>"

text \<open>A sample run: a configuration that keeps two raw messages, a summariser that always
  answers, and a thread of five user messages.\<close>

definition sample_config :: ContextConfig where
  "sample_config =
     \<lparr>max_tokens = 1000, compaction_threshold = 0, keep_raw_turns = 1, summarize_batch = 5,
      reserved_for_response = 0\<rparr>"

definition sample_user_message :: Message where
  "sample_user_message =
     \<lparr>msg_role = User, msg_content = ''hello'', msg_name = None, msg_tool_calls = [],
      msg_tool_call_id = None, msg_images = [], msg_timestamp = 0\<rparr>"

definition sample_state :: CompactionState where
  "sample_state =
     \<lparr>cs_messages = [sample_user_message, sample_user_message, sample_user_message,
                     sample_user_message, sample_user_message],
      cs_summaries = []\<rparr>"

text \<open>The clock of the sample run, and the states it reaches: after the first compaction,
  and after one more message and a second compaction.\<close>

definition sample_clock :: "nat \<Rightarrow> int" where "sample_clock k = 0"

definition sample_state_1 :: CompactionState where
  "sample_state_1 =
     \<lparr>cs_messages = [sample_user_message, sample_user_message],
      cs_summaries = [\<lparr>sm_start_turn = 0, sm_end_turn = 3, sm_content = ''hello'',
                       sm_created_at = 0\<rparr>]\<rparr>"

definition sample_state_2 :: CompactionState where
  "sample_state_2 =
     \<lparr>cs_messages = [sample_user_message, sample_user_message],
      cs_summaries = [\<lparr>sm_start_turn = 0, sm_end_turn = 3, sm_content = ''hello'',
                       sm_created_at = 0\<rparr>,
                      \<lparr>sm_start_turn = 0, sm_end_turn = 1, sm_content = ''hello'',
                       sm_created_at = 0\<rparr>]\<rparr>"

chapter \<open>Properties\<close>

section \<open>Tool-call integrity of the formatted messages\<close>

lemma valid_tool_ids_iff:
  "i \<in> valid_tool_ids messages \<longleftrightarrow>
   (\<exists>m \<in> set messages. msg_role m = Assistant \<and> i \<in> tc_id ` set (msg_tool_calls m))"
  by (induction messages) auto

lemma entry_tool_use_id_format_entry:
  "entry_tool_use_id (format_entry msg) =
     (if msg_role msg = Tool then Some (value_or (msg_tool_call_id msg) '''') else None)"
proof (cases "msg_role msg = Tool")
  case True
  then show ?thesis
    by (simp add: entry_tool_use_id_def format_entry_def format_content_def
        tool_result_block_def Let_def)
next
  case False
  have one: "lookup b ''type'' \<noteq> Some (JString ''tool_result'')"
    if "b = text_block s \<or> b = tool_use_block tc \<or> b = image_block img" for b s tc img
    using that by (auto simp: text_block_def tool_use_block_def image_block_def)
  show ?thesis
  proof (cases "format_content msg")
    case (JArray bs)
    show ?thesis
    proof (cases bs)
      case Nil
      with JArray False show ?thesis
        by (simp add: entry_tool_use_id_def format_entry_def)
    next
      case (Cons b bs')
      have "b \<in> set bs" using Cons by simp
      then have "(\<exists>s. b = text_block s) \<or> (\<exists>tc. b = tool_use_block tc) \<or> (\<exists>img. b = image_block img)"
        using JArray False
        by (auto simp: format_content_def split: if_splits)
      then have "lookup b ''type'' \<noteq> Some (JString ''tool_result'')"
        using one by blast
      with JArray Cons False show ?thesis
        by (cases bs') (simp_all add: entry_tool_use_id_def format_entry_def)
    qed
  qed (use False in \<open>simp_all add: entry_tool_use_id_def format_entry_def\<close>)
qed

lemma map_filter_format_loop:
  "List.map_filter entry_tool_use_id (format_loop valid messages) =
     filter (\<lambda>i. i \<in> valid) (tool_message_ids messages)"
  by (induction messages)
     (auto simp: tool_message_ids_def List.map_filter_simps entry_tool_use_id_format_entry)

text \<open>
  C1 (as the code has it). The tool results of the formatted output are exactly the tool
  messages of the input whose id is a tool-call id of some assistant message of the same
  sequence, in input order; tool messages whose id appears in no assistant message are
  dropped. The assistant message need not come earlier: the ids are collected from the
  whole sequence before any message is formatted.
\<close>

theorem format_messages_tool_results:
  "tool_result_ids (format_messages messages) =
     filter (\<lambda>i. i \<in> valid_tool_ids messages) (tool_message_ids messages)
   \<and> (\<forall>i \<in> set (tool_result_ids (format_messages messages)).
        \<exists>m \<in> set messages. msg_role m = Assistant \<and> i \<in> tc_id ` set (msg_tool_calls m))
   \<and> (\<forall>i. (\<forall>m \<in> set messages. msg_role m = Assistant \<longrightarrow> i \<notin> tc_id ` set (msg_tool_calls m))
        \<longrightarrow> i \<notin> set (tool_result_ids (format_messages messages)))"
proof -
  have eq: "tool_result_ids (format_messages messages) =
      filter (\<lambda>i. i \<in> valid_tool_ids messages) (tool_message_ids messages)"
    by (simp add: format_messages_def map_filter_format_loop)
  have sub: "set (tool_result_ids (format_messages messages)) \<subseteq> valid_tool_ids messages"
    unfolding eq by auto
  show ?thesis
    using eq sub by (auto simp: valid_tool_ids_iff)
qed

theorem format_messages_tool_results_witness:
  "tool_result_ids (format_messages [sample_assistant_call, sample_tool_result, sample_orphan_result])
     = [''tc_1'']
   \<and> (\<exists>m \<in> set [sample_assistant_call, sample_tool_result, sample_orphan_result].
        msg_role m = Assistant \<and> ''tc_1'' \<in> tc_id ` set (msg_tool_calls m))
   \<and> ''tc_X'' \<notin> set (tool_result_ids
        (format_messages [sample_assistant_call, sample_tool_result, sample_orphan_result]))"
  using format_messages_tool_results
    [of "[sample_assistant_call, sample_tool_result, sample_orphan_result]"]
  by (simp add: tool_message_ids_def sample_assistant_call_def sample_tool_result_def
      sample_orphan_result_def)

text \<open>
  C1 as stated fails: a tool result placed before the assistant message that issues its
  call is kept, although no assistant message precedes it. The formatted output begins
  with that tool result, and the messages before position 0 hold no tool-call id.
\<close>

theorem format_messages_earlier_counterexample:
  "format_messages [sample_tool_result, sample_assistant_call]
     = JArray [format_entry sample_tool_result, format_entry sample_assistant_call]
   \<and> entry_tool_use_id (format_entry sample_tool_result) = Some ''tc_1''
   \<and> valid_tool_ids (take 0 [sample_tool_result, sample_assistant_call]) = {}"
  by (simp add: format_messages_def entry_tool_use_id_format_entry
      sample_assistant_call_def sample_tool_result_def)

section \<open>Argument validation gates the handler\<close>

lemma contains_lookup: "contains j k \<longleftrightarrow> lookup j k \<noteq> None"
  by (cases j) simp_all

lemma check_required_None_iff:
  "check_required tool ps args = None \<longleftrightarrow>
   (\<forall>p \<in> set ps. ps_required p \<longrightarrow> lookup args (ps_name p) \<noteq> None)"
  by (induction ps) (auto simp: contains_lookup)

lemma check_required_code:
  "check_required tool ps args = Some e \<Longrightarrow> err_code e = ToolValidationFailed"
  by (induction ps) (auto simp: error3_def split: if_splits)

lemma check_types_None_iff:
  "check_types tool ps args = None \<longleftrightarrow>
   (\<forall>p \<in> set ps. \<forall>v. lookup args (ps_name p) = Some v \<longrightarrow>
      type_valid (ps_type p) v \<and> \<not> enum_violation p v)"
  by (induction ps) (auto split: option.splits)

lemma check_types_code:
  "check_types tool ps args = Some e \<Longrightarrow> err_code e = ToolValidationFailed"
  by (induction ps) (auto simp: error3_def split: if_splits option.splits)

lemma validate_args_code:
  "validate_args spec args = Inl e \<Longrightarrow> err_code e = ToolValidationFailed"
  by (auto simp: validate_args_def check_required_code check_types_code split: option.splits)

lemma enum_violation_iff:
  "enum_violation p v \<longleftrightarrow>
   (\<exists>vals s. ps_enum_values p = Some vals \<and> v = JString s \<and> s \<notin> set vals)"
  by (auto simp: enum_violation_def split: option.splits json.splits)

text \<open>The JSON kinds that each declared type accepts.\<close>

lemma type_valid_iff:
  "type_valid t v \<longleftrightarrow>
     (case t of
        String \<Rightarrow> (\<exists>s. v = JString s)
      | Integer \<Rightarrow> (\<exists>n. v = JInt n)
      | Number \<Rightarrow> (\<exists>n. v = JInt n) \<or> (\<exists>x. v = JFloat x)
      | Boolean \<Rightarrow> (\<exists>b. v = JBool b)
      | Array \<Rightarrow> (\<exists>xs. v = JArray xs)
      | Object \<Rightarrow> (\<exists>kvs. v = JObject kvs))"
  by (cases t; cases v) simp_all

lemma validate_args_ok_iff:
  "validate_args spec args = Inr () \<longleftrightarrow>
   \<not> ((\<exists>p \<in> set (ts_parameters spec). ps_required p \<and> lookup args (ps_name p) = None)
      \<or> (\<exists>p \<in> set (ts_parameters spec). \<exists>v. lookup args (ps_name p) = Some v
            \<and> \<not> type_valid (ps_type p) v)
      \<or> (\<exists>p \<in> set (ts_parameters spec). \<exists>vals s. ps_enum_values p = Some vals
            \<and> lookup args (ps_name p) = Some (JString s) \<and> s \<notin> set vals))"
proof -
  have "validate_args spec args = Inr () \<longleftrightarrow>
      check_required (ts_name spec) (ts_parameters spec) args = None
      \<and> check_types (ts_name spec) (ts_parameters spec) args = None"
    by (auto simp: validate_args_def split: option.splits)
  also have "\<dots> \<longleftrightarrow>
      (\<forall>p \<in> set (ts_parameters spec). ps_required p \<longrightarrow> lookup args (ps_name p) \<noteq> None)
      \<and> (\<forall>p \<in> set (ts_parameters spec). \<forall>v. lookup args (ps_name p) = Some v \<longrightarrow>
            type_valid (ps_type p) v \<and> \<not> enum_violation p v)"
    by (simp only: check_required_None_iff check_types_None_iff)
  finally show ?thesis
    by (auto simp: enum_violation_iff)
qed

lemma check_required_cong:
  "\<forall>p \<in> set ps. lookup args' (ps_name p) = lookup args (ps_name p) \<Longrightarrow>
   check_required tool ps args' = check_required tool ps args"
  by (induction ps) (auto simp: contains_lookup)

lemma check_types_cong:
  "\<forall>p \<in> set ps. lookup args' (ps_name p) = lookup args (ps_name p) \<Longrightarrow>
   check_types tool ps args' = check_types tool ps args"
  by (induction ps) (auto split: option.splits)

lemma validate_args_cong:
  "\<forall>p \<in> set (ts_parameters spec). lookup args' (ps_name p) = lookup args (ps_name p) \<Longrightarrow>
   validate_args spec args' = validate_args spec args"
  using check_required_cong [of "ts_parameters spec" args' args "ts_name spec"]
    check_types_cong [of "ts_parameters spec" args' args "ts_name spec"]
  by (auto simp: validate_args_def split: option.splits)

text \<open>What \<open>execute\<close> does for a registered and enabled tool, by the outcome of validation.\<close>

lemma execute_valid:
  assumes "tools name = Some tool" and "rt_enabled tool"
    and "validate_args (rt_spec tool) args = Inr ()"
  shows "execute tools elapsed name args ctx =
     ((case rt_handler tool args ctx of
         Returned result \<Rightarrow> Returns (Inr (result\<lparr>tr_execution_time := elapsed\<rparr>))
       | ThrewStd what \<Rightarrow> Returns (Inl (error3 ToolExecutionFailed what name))
       | ThrewOther \<Rightarrow> Throws
       | NeverReturned \<Rightarrow> NeverReturns), [(name, args)])"
  using assms by (simp add: execute_def split: HandlerOutcome.splits)

lemma execute_invalid:
  assumes "rt_enabled tool" and "validate_args (rt_spec tool) args = Inl e"
  shows "execute (tools(name \<mapsto> tool\<lparr>rt_handler := h\<rparr>)) elapsed name args ctx
     = (Returns (Inl e), [])"
  using assms by (simp add: execute_def)

text \<open>
  C4. For a registered and enabled tool whose arguments pass validation, \<open>execute\<close>
  calls the handler, once, with the arguments and the context it was given, and ends as
  that call ends: it returns the handler's result (with the measured time), or a
  \<open>ToolExecutionFailed\<close> error when the handler throws a standard exception. When
  validation fails, \<open>execute\<close> returns a \<open>ToolValidationFailed\<close> error without calling
  the handler: the result is the same whatever the handler is, even one that never
  returns. Validation fails exactly when a required declared parameter is absent, or a
  supplied declared parameter has a value whose JSON kind is not that of its declared
  type (a string for \<open>String\<close>, an integer for \<open>Integer\<close>, an integer or a float for
  \<open>Number\<close>, a boolean for \<open>Boolean\<close>, an array for \<open>Array\<close>, an object for \<open>Object\<close>), or
  a supplied string value is not a member of the parameter's enumeration. The outcome of
  validation depends only on the values of the declared parameters, so undeclared
  arguments never cause an error.
\<close>

theorem execute_validation_gate:
  assumes "tools name = Some tool" and "rt_enabled tool"
  shows
    "(validate_args (rt_spec tool) args = Inr () \<longrightarrow>
        execute tools elapsed name args ctx =
          ((case rt_handler tool args ctx of
              Returned result \<Rightarrow> Returns (Inr (result\<lparr>tr_execution_time := elapsed\<rparr>))
            | ThrewStd what \<Rightarrow> Returns (Inl (error3 ToolExecutionFailed what name))
            | ThrewOther \<Rightarrow> Throws
            | NeverReturned \<Rightarrow> NeverReturns), [(name, args)]))
     \<and> (validate_args (rt_spec tool) args \<noteq> Inr () \<longrightarrow>
          (\<exists>e. validate_args (rt_spec tool) args = Inl e \<and> err_code e = ToolValidationFailed
             \<and> execute tools elapsed name args ctx = (Returns (Inl e), [])
             \<and> (\<forall>h. execute (tools(name \<mapsto> tool\<lparr>rt_handler := h\<rparr>)) elapsed name args ctx
                    = (Returns (Inl e), []))))
     \<and> (snd (execute tools elapsed name args ctx) = [(name, args)]
        \<longleftrightarrow> validate_args (rt_spec tool) args = Inr ())
     \<and> (snd (execute tools elapsed name args ctx) = []
        \<longleftrightarrow> validate_args (rt_spec tool) args \<noteq> Inr ())
     \<and> ((\<exists>e. fst (execute tools elapsed name args ctx) = Returns (Inl e)
              \<and> err_code e = ToolValidationFailed)
        \<longleftrightarrow> validate_args (rt_spec tool) args \<noteq> Inr ())
     \<and> (validate_args (rt_spec tool) args \<noteq> Inr () \<longleftrightarrow>
          (\<exists>p \<in> set (ts_parameters (rt_spec tool)).
              ps_required p \<and> lookup args (ps_name p) = None)
        \<or> (\<exists>p \<in> set (ts_parameters (rt_spec tool)). \<exists>v.
              lookup args (ps_name p) = Some v
              \<and> \<not> (case ps_type p of
                     String \<Rightarrow> (\<exists>s. v = JString s)
                   | Integer \<Rightarrow> (\<exists>n. v = JInt n)
                   | Number \<Rightarrow> (\<exists>n. v = JInt n) \<or> (\<exists>x. v = JFloat x)
                   | Boolean \<Rightarrow> (\<exists>b. v = JBool b)
                   | Array \<Rightarrow> (\<exists>xs. v = JArray xs)
                   | Object \<Rightarrow> (\<exists>kvs. v = JObject kvs)))
        \<or> (\<exists>p \<in> set (ts_parameters (rt_spec tool)). \<exists>vals s.
              ps_enum_values p = Some vals
              \<and> lookup args (ps_name p) = Some (JString s) \<and> s \<notin> set vals))
     \<and> (\<forall>args'. (\<forall>p \<in> set (ts_parameters (rt_spec tool)).
                     lookup args' (ps_name p) = lookup args (ps_name p))
          \<longrightarrow> validate_args (rt_spec tool) args' = validate_args (rt_spec tool) args)"
proof -
  let ?v = "validate_args (rt_spec tool) args"
  let ?r = "execute tools elapsed name args ctx"
  have same: "tools(name \<mapsto> tool\<lparr>rt_handler := rt_handler tool\<rparr>) = tools"
    using assms(1) by (simp add: fun_upd_idem)
  have ok: "?r = ((case rt_handler tool args ctx of
              Returned result \<Rightarrow> Returns (Inr (result\<lparr>tr_execution_time := elapsed\<rparr>))
            | ThrewStd what \<Rightarrow> Returns (Inl (error3 ToolExecutionFailed what name))
            | ThrewOther \<Rightarrow> Throws
            | NeverReturned \<Rightarrow> NeverReturns), [(name, args)])" if "?v = Inr ()"
    using execute_valid [of tools name tool args elapsed ctx] assms that by simp
  have bad: "\<exists>e. ?v = Inl e \<and> err_code e = ToolValidationFailed \<and> ?r = (Returns (Inl e), [])
        \<and> (\<forall>h. execute (tools(name \<mapsto> tool\<lparr>rt_handler := h\<rparr>)) elapsed name args ctx
               = (Returns (Inl e), []))" if "?v \<noteq> Inr ()"
  proof -
    from that obtain e where e: "?v = Inl e"
      by (cases ?v) auto
    have all: "execute (tools(name \<mapsto> tool\<lparr>rt_handler := h\<rparr>)) elapsed name args ctx
        = (Returns (Inl e), [])" for h
      using execute_invalid [of tool args e tools name h elapsed ctx] assms(2) e by simp
    from all [of "rt_handler tool"] have "?r = (Returns (Inl e), [])"
      by (simp only: same)
    with all e validate_args_code [OF e] show ?thesis
      by blast
  qed
  have ok_log: "snd ?r = [(name, args)]" if "?v = Inr ()"
    using ok [OF that] by simp
  have ok_code: "err_code e = ToolExecutionFailed" if "?v = Inr ()" "fst ?r = Returns (Inl e)" for e
    using ok [OF that(1)] that(2)
    by (auto simp: error3_def split: HandlerOutcome.splits)
  have c1: "snd ?r = [(name, args)] \<longleftrightarrow> ?v = Inr ()"
    using ok_log bad by (cases "?v = Inr ()") auto
  have c2: "snd ?r = [] \<longleftrightarrow> ?v \<noteq> Inr ()"
    using ok_log bad by (cases "?v = Inr ()") auto
  have c3: "(\<exists>e. fst ?r = Returns (Inl e) \<and> err_code e = ToolValidationFailed) \<longleftrightarrow> ?v \<noteq> Inr ()"
  proof (cases "?v = Inr ()")
    case True
    with ok_code show ?thesis by fastforce
  next
    case False
    from bad [OF False] show ?thesis using False by auto
  qed
  have c4: "?v \<noteq> Inr () \<longleftrightarrow>
          (\<exists>p \<in> set (ts_parameters (rt_spec tool)).
              ps_required p \<and> lookup args (ps_name p) = None)
        \<or> (\<exists>p \<in> set (ts_parameters (rt_spec tool)). \<exists>v.
              lookup args (ps_name p) = Some v
              \<and> \<not> (case ps_type p of
                     String \<Rightarrow> (\<exists>s. v = JString s)
                   | Integer \<Rightarrow> (\<exists>n. v = JInt n)
                   | Number \<Rightarrow> (\<exists>n. v = JInt n) \<or> (\<exists>x. v = JFloat x)
                   | Boolean \<Rightarrow> (\<exists>b. v = JBool b)
                   | Array \<Rightarrow> (\<exists>xs. v = JArray xs)
                   | Object \<Rightarrow> (\<exists>kvs. v = JObject kvs)))
        \<or> (\<exists>p \<in> set (ts_parameters (rt_spec tool)). \<exists>vals s.
              ps_enum_values p = Some vals
              \<and> lookup args (ps_name p) = Some (JString s) \<and> s \<notin> set vals)"
    using validate_args_ok_iff [of "rt_spec tool" args]
    unfolding type_valid_iff by blast
  have c5: "\<forall>args'. (\<forall>p \<in> set (ts_parameters (rt_spec tool)).
                     lookup args' (ps_name p) = lookup args (ps_name p))
          \<longrightarrow> validate_args (rt_spec tool) args' = ?v"
    using validate_args_cong by blast
  from ok bad c1 c2 c3 c4 c5 show ?thesis
    by (intro conjI impI) assumption+
qed


theorem execute_validation_gate_witness:
  "sample_registry ''file_read'' = Some sample_tool \<and> rt_enabled sample_tool
   \<and> execute sample_registry 5 ''file_read''
        (JObject [(''path'', JString ''a.txt''), (''verbose'', JBool True)]) sample_ctx
      = (Returns (Inr \<lparr>tr_tool_call_id = [], tr_success = True, tr_content = ''contents'',
                       tr_error_message = None, tr_execution_time = 5, tr_is_image = False\<rparr>),
         [(''file_read'', JObject [(''path'', JString ''a.txt''), (''verbose'', JBool True)])])
   \<and> execute (registry_with throwing_handler) 5 ''file_read''
        (JObject [(''path'', JString ''a.txt''), (''limit'', JInt 10)]) sample_ctx
      = (Returns (Inl (error3 ToolExecutionFailed ''disk error'' ''file_read'')),
         [(''file_read'', JObject [(''path'', JString ''a.txt''), (''limit'', JInt 10)])])
   \<and> execute (registry_with hanging_handler) 5 ''file_read''
        (JObject [(''path'', JString ''a.txt'')]) sample_ctx
      = (NeverReturns, [(''file_read'', JObject [(''path'', JString ''a.txt'')])])
   \<and> execute sample_registry 5 ''file_read'' (JObject [(''mode'', JString ''text'')]) sample_ctx
      = (Returns (Inl (error3 ToolValidationFailed ''Missing required parameter: path''
                         ''file_read'')), [])
   \<and> execute (registry_with hanging_handler) 5 ''file_read''
        (JObject [(''mode'', JString ''text'')]) sample_ctx
      = (Returns (Inl (error3 ToolValidationFailed ''Missing required parameter: path''
                         ''file_read'')), [])
   \<and> execute sample_registry 5 ''file_read'' (JObject [(''path'', JInt 3)]) sample_ctx
      = (Returns (Inl (error3 ToolValidationFailed ''Invalid type for parameter: path''
                         ''file_read'')), [])
   \<and> execute sample_registry 5 ''file_read''
        (JObject [(''path'', JString ''a.txt''), (''limit'', JFloat (5 / 2))]) sample_ctx
      = (Returns (Inl (error3 ToolValidationFailed ''Invalid type for parameter: limit''
                         ''file_read'')), [])
   \<and> execute sample_registry 5 ''file_read''
        (JObject [(''path'', JString ''a.txt''), (''mode'', JString ''hex'')]) sample_ctx
      = (Returns (Inl (error3 ToolValidationFailed ''Invalid enum value for parameter: mode''
                         ''file_read'')), [])
   \<and> validate_args (rt_spec sample_tool)
        (JObject [(''verbose'', JBool True), (''path'', JString ''a.txt''), (''n'', JInt 3)])
      = Inr ()"
proof -
  let ?ok = "JObject [(''path'', JString ''a.txt''), (''verbose'', JBool True)]"
  have h1: "sample_registry ''file_read'' = Some sample_tool"
    by (simp add: sample_registry_def)
  have h2: "rt_enabled sample_tool"
    by (simp add: sample_tool_def)
  have spec: "rt_spec sample_tool = sample_spec"
    by (simp add: sample_tool_def)
  have reg: "registry_with h = sample_registry(''file_read'' \<mapsto> sample_tool\<lparr>rt_handler := h\<rparr>)"
    for h
    by (simp add: registry_with_def sample_registry_def)
  have v_ok: "validate_args sample_spec ?ok = Inr ()"
    by (simp add: validate_args_def sample_spec_def enum_violation_def)
  have accepted: "execute sample_registry 5 ''file_read'' ?ok sample_ctx
      = (Returns (Inr \<lparr>tr_tool_call_id = [], tr_success = True, tr_content = ''contents'',
                       tr_error_message = None, tr_execution_time = 5, tr_is_image = False\<rparr>),
         [(''file_read'', ?ok)])"
    using execute_validation_gate [of sample_registry "''file_read''" sample_tool ?ok 5 sample_ctx]
      h1 h2 v_ok
    by (simp add: spec) (simp add: sample_tool_def sample_handler_def)
  have with_handler: "execute (registry_with h) 5 ''file_read'' a sample_ctx =
          ((case h a sample_ctx of
              Returned result \<Rightarrow> Returns (Inr (result\<lparr>tr_execution_time := 5\<rparr>))
            | ThrewStd what \<Rightarrow> Returns (Inl (error3 ToolExecutionFailed what ''file_read''))
            | ThrewOther \<Rightarrow> Throws
            | NeverReturned \<Rightarrow> NeverReturns), [(''file_read'', a)])"
    if "validate_args sample_spec a = Inr ()" for h a
    using execute_validation_gate [of "registry_with h" "''file_read''"
        "sample_tool\<lparr>rt_handler := h\<rparr>" a 5 sample_ctx] that
    by (simp add: registry_with_def spec) (simp add: sample_tool_def)
  have thrown: "execute (registry_with throwing_handler) 5 ''file_read''
        (JObject [(''path'', JString ''a.txt''), (''limit'', JInt 10)]) sample_ctx
      = (Returns (Inl (error3 ToolExecutionFailed ''disk error'' ''file_read'')),
         [(''file_read'', JObject [(''path'', JString ''a.txt''), (''limit'', JInt 10)])])"
    by (subst with_handler)
       (simp_all add: validate_args_def sample_spec_def enum_violation_def throwing_handler_def)
  have hanging: "execute (registry_with hanging_handler) 5 ''file_read''
        (JObject [(''path'', JString ''a.txt'')]) sample_ctx
      = (NeverReturns, [(''file_read'', JObject [(''path'', JString ''a.txt'')])])"
    by (subst with_handler)
       (simp_all add: validate_args_def sample_spec_def enum_violation_def hanging_handler_def)
  have rejected: "execute sample_registry 5 ''file_read'' a sample_ctx = (Returns (Inl e), [])
      \<and> execute (registry_with h) 5 ''file_read'' a sample_ctx = (Returns (Inl e), [])"
    if "validate_args sample_spec a = Inl e" for a e h
    using execute_validation_gate [of sample_registry "''file_read''" sample_tool a 5 sample_ctx]
      h1 h2 that
    by (auto simp: spec reg)
  have missing: "validate_args sample_spec (JObject [(''mode'', JString ''text'')])
      = Inl (error3 ToolValidationFailed ''Missing required parameter: path'' ''file_read'')"
    by (simp add: validate_args_def sample_spec_def)
  have kind1: "validate_args sample_spec (JObject [(''path'', JInt 3)])
      = Inl (error3 ToolValidationFailed ''Invalid type for parameter: path'' ''file_read'')"
    by (simp add: validate_args_def sample_spec_def)
  have kind2: "validate_args sample_spec
        (JObject [(''path'', JString ''a.txt''), (''limit'', JFloat (5 / 2))])
      = Inl (error3 ToolValidationFailed ''Invalid type for parameter: limit'' ''file_read'')"
    by (simp add: validate_args_def sample_spec_def enum_violation_def)
  have enum: "validate_args sample_spec
        (JObject [(''path'', JString ''a.txt''), (''mode'', JString ''hex'')])
      = Inl (error3 ToolValidationFailed ''Invalid enum value for parameter: mode''
               ''file_read'')"
    by (simp add: validate_args_def sample_spec_def enum_violation_def)
  have same: "\<forall>p \<in> set (ts_parameters (rt_spec sample_tool)).
      lookup (JObject [(''verbose'', JBool True), (''path'', JString ''a.txt''), (''n'', JInt 3)])
        (ps_name p)
      = lookup ?ok (ps_name p)"
    by (simp add: sample_tool_def sample_spec_def)
  have "\<forall>args'. (\<forall>p \<in> set (ts_parameters (rt_spec sample_tool)).
                     lookup args' (ps_name p) = lookup ?ok (ps_name p))
          \<longrightarrow> validate_args (rt_spec sample_tool) args' = validate_args (rt_spec sample_tool) ?ok"
    using execute_validation_gate [of sample_registry "''file_read''" sample_tool ?ok 5 sample_ctx]
      h1 h2
    by blast
  with same v_ok have undeclared: "validate_args (rt_spec sample_tool)
        (JObject [(''verbose'', JBool True), (''path'', JString ''a.txt''), (''n'', JInt 3)])
      = Inr ()"
    by (simp only: spec)
  note m = rejected [OF missing, where h = hanging_handler]
  from h1 h2 accepted thrown hanging m [THEN conjunct1] m [THEN conjunct2]
    rejected [OF kind1, THEN conjunct1] rejected [OF kind2, THEN conjunct1]
    rejected [OF enum, THEN conjunct1] undeclared
  show ?thesis
    by (intro conjI) assumption+
qed

section \<open>Positional alignment of batch results\<close>











text \<open>Nor does it return a list when a handler throws something that is not a standard
  exception: the exception leaves \<open>execute_batch\<close>.\<close>

lemma execute_batch_rethrows:
  "execute_batch sample_pool (registry_with throwing_other_handler) sample_timing sample_calls
     sample_ctx empty_stats = Throws"
  by (simp add: execute_batch_def sample_pool_def sample_calls_def batch_task_def
      executor_execute_def execute_def registry_with_def sample_tool_def sample_spec_def
      validate_args_def enum_violation_def throwing_other_handler_def)

section \<open>Gateway failover\<close>

text \<open>
  C5 (as the code has it). With a primary provider that is configured and available,
  \<open>gateway_complete\<close> calls the primary first; it makes one further call, on the fallback, and
  returns that call's result, if and only if the primary's error is retriable and a
  fallback exists and is available; otherwise it returns the primary's result with no
  other call, so a non-retriable error is returned at once. With a primary that is
  configured but not available, the primary is not called at all: an available fallback
  is called once, directly.
\<close>

theorem complete_failover:
  "(primary_provider gw = Some p \<and> prov_available p \<longrightarrow>
      (\<exists>rest. fst (snd (gateway_complete gw request)) = OnPrimary # rest)
    \<and> (fst (snd (gateway_complete gw request)) = [OnPrimary, OnFallback] \<longleftrightarrow>
         (\<exists>e. prov_complete p request = Inl e \<and> is_retriable (err_code e))
         \<and> (\<exists>f. fallback_provider gw = Some f \<and> prov_available f))
    \<and> (fst (snd (gateway_complete gw request)) \<noteq> [OnPrimary, OnFallback] \<longrightarrow>
         fst (snd (gateway_complete gw request)) = [OnPrimary]
         \<and> fst (gateway_complete gw request) = prov_complete p request)
    \<and> (\<forall>f. fst (snd (gateway_complete gw request)) = [OnPrimary, OnFallback]
             \<and> fallback_provider gw = Some f \<longrightarrow>
           fst (gateway_complete gw request) = prov_complete f request)
    \<and> (\<forall>e. prov_complete p request = Inl e \<and> \<not> is_retriable (err_code e) \<longrightarrow>
           fst (gateway_complete gw request) = Inl e \<and> fst (snd (gateway_complete gw request)) = [OnPrimary]))
   \<and> (primary_provider gw = Some p \<and> \<not> prov_available p
        \<and> fallback_provider gw = Some f \<and> prov_available f \<longrightarrow>
      fst (snd (gateway_complete gw request)) = [OnFallback]
      \<and> fst (gateway_complete gw request) = prov_complete f request)"
proof -
  have second: "fst (snd (gateway_complete gw request)) = [OnFallback]
      \<and> fst (gateway_complete gw request) = prov_complete f request"
    if "primary_provider gw = Some p" "\<not> prov_available p"
       "fallback_provider gw = Some f" "prov_available f"
    using that by (auto simp: gateway_complete_def fallback_usable_def split: sum.splits)
  have first: "(\<exists>rest. fst (snd (gateway_complete gw request)) = OnPrimary # rest)
    \<and> (fst (snd (gateway_complete gw request)) = [OnPrimary, OnFallback] \<longleftrightarrow>
         (\<exists>e. prov_complete p request = Inl e \<and> is_retriable (err_code e))
         \<and> (\<exists>f. fallback_provider gw = Some f \<and> prov_available f))
    \<and> (fst (snd (gateway_complete gw request)) \<noteq> [OnPrimary, OnFallback] \<longrightarrow>
         fst (snd (gateway_complete gw request)) = [OnPrimary]
         \<and> fst (gateway_complete gw request) = prov_complete p request)
    \<and> (\<forall>f. fst (snd (gateway_complete gw request)) = [OnPrimary, OnFallback]
             \<and> fallback_provider gw = Some f \<longrightarrow>
           fst (gateway_complete gw request) = prov_complete f request)
    \<and> (\<forall>e. prov_complete p request = Inl e \<and> \<not> is_retriable (err_code e) \<longrightarrow>
           fst (gateway_complete gw request) = Inl e \<and> fst (snd (gateway_complete gw request)) = [OnPrimary])"
    if pp: "primary_provider gw = Some p" "prov_available p"
  proof (cases "prov_complete p request")
    case (Inr response)
    with pp show ?thesis
      by (simp add: gateway_complete_def)
  next
    case (Inl e)
    show ?thesis
    proof (cases "is_retriable (err_code e) \<and> fallback_usable gw")
      case True
      then obtain f where f: "fallback_provider gw = Some f" "prov_available f"
        by (auto simp: fallback_usable_def split: option.splits)
      with pp Inl True show ?thesis
        by (cases "prov_complete f request") (simp_all add: gateway_complete_def)
    next
      case False
      then have "\<not> (is_retriable (err_code e)
          \<and> (\<exists>f. fallback_provider gw = Some f \<and> prov_available f))"
        by (auto simp: fallback_usable_def)
      with pp Inl False show ?thesis
        by (auto simp: gateway_complete_def)
    qed
  qed
  show ?thesis
    using first second by blast
qed

theorem complete_failover_witness:
  "fst (snd (gateway_complete \<lparr>primary_provider = Some provider_rate_limited,
                       fallback_provider = Some provider_ok, gw_stats = empty_usage\<rparr>
               sample_request)) = [OnPrimary, OnFallback]
   \<and> fst (gateway_complete \<lparr>primary_provider = Some provider_rate_limited,
                    fallback_provider = Some provider_ok, gw_stats = empty_usage\<rparr>
            sample_request) = Inr sample_response
   \<and> fst (snd (gateway_complete \<lparr>primary_provider = Some provider_no_key,
                       fallback_provider = Some provider_ok, gw_stats = empty_usage\<rparr>
               sample_request)) = [OnFallback]"
proof -
  let ?gw1 = "\<lparr>primary_provider = Some provider_rate_limited,
               fallback_provider = Some provider_ok, gw_stats = empty_usage\<rparr>"
  let ?gw2 = "\<lparr>primary_provider = Some provider_no_key,
               fallback_provider = Some provider_ok, gw_stats = empty_usage\<rparr>"
  have r: "is_retriable LLMRateLimited"
    by (simp add: is_retriable_def)
  have a: "fst (snd (gateway_complete ?gw1 sample_request)) = [OnPrimary, OnFallback]
      \<and> fst (gateway_complete ?gw1 sample_request) = Inr sample_response"
    using complete_failover [of ?gw1 provider_rate_limited sample_request provider_ok] r
    by (simp add: provider_rate_limited_def provider_ok_def error2_def)
  have b: "fst (snd (gateway_complete ?gw2 sample_request)) = [OnFallback]"
    using complete_failover [of ?gw2 provider_no_key sample_request provider_ok]
    by (simp add: provider_no_key_def provider_ok_def)
  show ?thesis
    using a b by simp
qed

text \<open>
  C5 as stated fails: with a primary that has no API key and an available fallback, the
  only provider call is the one on the fallback. The primary is never tried, and the
  fallback is called although no primary error, retriable or not, has occurred.
\<close>

theorem complete_primary_first_counterexample:
  "gateway_complete \<lparr>primary_provider = Some provider_no_key, fallback_provider = Some provider_ok,
             gw_stats = empty_usage\<rparr> sample_request
   = (Inr sample_response, [OnFallback], record_request sample_response empty_usage)"
  by (simp add: gateway_complete_def fallback_usable_def provider_no_key_def provider_ok_def)

section \<open>TRM predictions in cold start with a history\<close>

lemma sorted_sort_desc: "sorted_wrt (\<lambda>a b. snd a \<ge> snd b) (sort_desc xs)"
proof -
  have "sorted (map (\<lambda>p. - snd p) (sort_desc xs))"
    by (simp add: sort_desc_def)
  then show ?thesis
    by (simp add: sorted_wrt_map sorted_wrt_iff_nth_less sorted_iff_nth_mono_less)
qed

lemma mset_sort_desc: "mset (sort_desc xs) = mset xs"
  by (simp add: sort_desc_def)

lemma sorts_descending_sort_desc: "sorts_descending sort_desc"
  by (simp add: sorts_descending_def sorted_sort_desc mset_sort_desc)

text \<open>Two entries of different scores have one descending order, whatever the sort
  function does with ties.\<close>

lemma sorts_descending_two:
  assumes "sorts_descending srt" and "snd a > snd b"
  shows "srt [a, b] = [a, b]" and "srt [b, a] = [a, b]"
proof -
  have two: "ys = [a, b]"
    if m: "mset ys = {#a, b#}" and s: "sorted_wrt (\<lambda>a b. snd a \<ge> snd b) ys" for ys
  proof -
    from m have "length ys = 2"
      using mset_eq_length [of ys "[a, b]"] by simp
    then obtain x y where ys: "ys = [x, y]"
      by (auto simp: length_Suc_conv numeral_2_eq_2)
    with m have "(x = a \<and> y = b) \<or> (x = b \<and> y = a)"
      by (auto simp: add_eq_conv_ex)
    with s ys assms(2) show ?thesis
      by auto
  qed
  from assms(1) have "mset (srt [a, b]) = {#a, b#}"
    and "sorted_wrt (\<lambda>a b. snd a \<ge> snd b) (srt [a, b])"
    and "mset (srt [b, a]) = {#a, b#}"
    and "sorted_wrt (\<lambda>a b. snd a \<ge> snd b) (srt [b, a])"
    by (simp_all add: sorts_descending_def)
  then show "srt [a, b] = [a, b]" and "srt [b, a] = [a, b]"
    using two by blast+
qed

text \<open>The weight that the loop over the history gives to a tool: each of its actions
  counts the length of the history minus the action's position, so the first, oldest
  action counts most.\<close>

lemma weight_absent:
  "t \<notin> ea_tool ` set h \<Longrightarrow>
   (\<Sum>i<length h. if ea_tool (h ! i) = t then r - int i else 0) = (0::int)"
  by (rule sum.neutral) (auto simp: image_iff)

lemma history_scores_eq:
  "history_scores h r m t =
     (if t \<in> ea_tool ` set h
      then Some (value_or (m t) 0 + (\<Sum>i<length h. if ea_tool (h ! i) = t then r - int i else 0))
      else m t)"
proof (induction h arbitrary: r m)
  case Nil
  then show ?case by simp
next
  case (Cons a rest)
  have shift: "(\<Sum>i<length (a # rest). if ea_tool ((a # rest) ! i) = t then r - int i else 0)
      = (if ea_tool a = t then r else 0)
        + (\<Sum>i<length rest. if ea_tool (rest ! i) = t then (r - 1) - int i else 0)"
  proof -
    have "(\<Sum>i<Suc (length rest). g i) = g 0 + (\<Sum>i<length rest. g (Suc i))"
      for g :: "nat \<Rightarrow> int"
      by (rule sum.lessThan_Suc_shift)
    from this [of "\<lambda>i. if ea_tool ((a # rest) ! i) = t then r - int i else 0"]
    show ?thesis
      by (simp del: sum.lessThan_Suc add: algebra_simps cong: if_cong)
  qed
  show ?case
    unfolding history_scores.simps Cons.IH shift
    by (auto simp: algebra_simps weight_absent)
qed

lemma sorts_descending_Nil_iff: "sorts_descending srt \<Longrightarrow> srt xs = [] \<longleftrightarrow> xs = []"
  unfolding sorts_descending_def by (metis mset_zero_iff)

text \<open>In status \<open>ColdStart\<close> with a history, the confidence is assigned again after the
  second sort, from the top boosted score, without the factor 0.5 of \<open>fallback_predict\<close>.\<close>

lemma predict_cold_start_confidence:
  assumes "sorts_descending srt" and "history \<noteq> []" and "tools \<noteq> []"
  shows "\<exists>p. predict srt ColdStart indet task tools history = Some p
     \<and> ranked_tools p \<noteq> [] \<and> confidence p = snd (hd (ranked_tools p))"
proof -
  have "tool_scores task tools \<noteq> []"
    using assms(3) by (simp add: tool_scores_def Let_def)
  then have "keyword_match srt task tools \<noteq> []"
    by (simp add: keyword_match_def sorts_descending_Nil_iff [OF assms(1)])
  then have "ranked_tools (fallback_predict srt indet task tools) \<noteq> []"
    by (simp add: fallback_predict_def Let_def)
  then have "srt (map (apply_boost 0.15 history)
      (ranked_tools (fallback_predict srt indet task tools))) \<noteq> []"
    by (simp add: sorts_descending_Nil_iff [OF assms(1)])
  with assms(2) show ?thesis
    by (simp add: predict_def Let_def)
qed


lemma tool_scores_sample:
  "tool_scores ''run search'' [''bash'', ''grep''] = [(''bash'', 1 / 20), (''grep'', 1 / 18)]"
  by code_simp

lemma history_scores_sample:
  "history_scores sample_history 2 Map.empty ''bash'' = Some 2"
  "history_scores sample_history 2 Map.empty ''grep'' = Some 1"
  by (simp_all add: sample_history_def)


lemma keyword_match_sample:
  assumes "sorts_descending srt"
  shows "keyword_match srt ''run search'' [''bash'', ''grep'']
     = [(''grep'', 1 / 18), (''bash'', 1 / 20)]"
  unfolding keyword_match_def tool_scores_sample
  by (rule sorts_descending_two(2) [OF assms]) simp

lemma apply_boost_sample:
  "apply_boost (3 / 20) sample_history (''grep'', 1 / 18) = (''grep'', 47 / 360)"
  "apply_boost (3 / 20) sample_history (''bash'', 1 / 20) = (''bash'', 1 / 5)"
proof -
  have "length sample_history = 2"
    by (simp add: sample_history_def)
  then show "apply_boost (3 / 20) sample_history (''grep'', 1 / 18) = (''grep'', 47 / 360)"
    and "apply_boost (3 / 20) sample_history (''bash'', 1 / 20) = (''bash'', 1 / 5)"
    by (simp_all add: apply_boost_def history_scores_sample)
qed

text \<open>
  C3, at a model in status \<open>ColdStart\<close> (the status after construction) that is asked to
  rank \<^verbatim>\<open>bash\<close> and \<^verbatim>\<open>grep\<close> for the task \<^verbatim>\<open>run search\<close> after a \<^verbatim>\<open>bash\<close> action
  followed by a \<^verbatim>\<open>grep\<close> action. The heuristic scores are 1/20 for \<^verbatim>\<open>bash\<close> and 1/18 for
  \<^verbatim>\<open>grep\<close>, and without a history \<open>fallback_predict\<close> reports the top score times 0.5,
  that is 1/36. With the history, the older \<^verbatim>\<open>bash\<close> action gets the weight 2 and the
  more recent \<^verbatim>\<open>grep\<close> action the weight 1, the boosted scores are 1/5 and 47/360, and
  \<open>predict\<close> reports the confidence 1/5: the top boosted score itself, not multiplied
  by 0.5. This holds for every sort function that \<^verbatim>\<open>std::sort\<close> may be.
\<close>

theorem predict_cold_start_history:
  assumes "sorts_descending srt"
  shows
    "fallback_predict srt indet ''run search'' [''bash'', ''grep'']
       = \<lparr>recommended_tool = ''grep'', confidence = 1 / 36,
          ranked_tools = [(''grep'', 1 / 18), (''bash'', 1 / 20)]\<rparr>
     \<and> history_scores sample_history 2 Map.empty ''bash'' = Some 2
     \<and> history_scores sample_history 2 Map.empty ''grep'' = Some 1
     \<and> predict srt ColdStart indet ''run search'' [''bash'', ''grep''] sample_history
       = Some \<lparr>recommended_tool = ''bash'', confidence = 1 / 5,
               ranked_tools = [(''bash'', 1 / 5), (''grep'', 47 / 360)]\<rparr>"
proof -
  have f: "fallback_predict srt indet ''run search'' [''bash'', ''grep'']
       = \<lparr>recommended_tool = ''grep'', confidence = 1 / 36,
          ranked_tools = [(''grep'', 1 / 18), (''bash'', 1 / 20)]\<rparr>"
    by (simp add: fallback_predict_def keyword_match_sample [OF assms])
  have b: "srt [(''grep'', 47 / 360), (''bash'', 1 / 5)]
      = [(''bash'', 1 / 5), (''grep'', 47 / 360)]"
    by (rule sorts_descending_two(2) [OF assms]) simp
  have h: "sample_history \<noteq> []"
    by (simp add: sample_history_def)
  have p: "predict srt ColdStart indet ''run search'' [''bash'', ''grep''] sample_history
       = Some \<lparr>recommended_tool = ''bash'', confidence = 1 / 5,
               ranked_tools = [(''bash'', 1 / 5), (''grep'', 47 / 360)]\<rparr>"
    by (simp add: predict_def f h apply_boost_sample b)
  from f p history_scores_sample show ?thesis
    by (intro conjI) assumption+
qed

theorem predict_cold_start_history_witness:
  "sorts_descending sort_desc
   \<and> fallback_predict sort_desc 0 ''run search'' [''bash'', ''grep'']
       = \<lparr>recommended_tool = ''grep'', confidence = 1 / 36,
          ranked_tools = [(''grep'', 1 / 18), (''bash'', 1 / 20)]\<rparr>
   \<and> predict sort_desc ColdStart 0 ''run search'' [''bash'', ''grep''] sample_history
       = Some \<lparr>recommended_tool = ''bash'', confidence = 1 / 5,
               ranked_tools = [(''bash'', 1 / 5), (''grep'', 47 / 360)]\<rparr>"
  using predict_cold_start_history [of sort_desc 0] sorts_descending_sort_desc
  by simp

section \<open>Saving and loading the TRM model\<close>

text \<open>
  C9 (as the code has it). \<open>save\<close> fails with \<open>InvalidState\<close>, leaving the file system
  untouched, exactly when the status is neither \<open>Ready\<close> nor \<open>Training\<close>. In those two
  statuses it succeeds whenever the parent directory exists or can be created and the
  file can be opened; it then has created a missing parent directory and written the
  versioned header, and a \<open>load\<close> of the path just written succeeds and marks the model
  \<open>Ready\<close>.
\<close>

theorem save_then_load:
  "((\<exists>e. fst (save parent_path mkdir_error open_ok fs status path) = Inl e
          \<and> err_code e = InvalidState)
      \<longleftrightarrow> status \<noteq> Ready \<and> status \<noteq> Training)
   \<and> (status \<noteq> Ready \<and> status \<noteq> Training \<longrightarrow>
        snd (save parent_path mkdir_error open_ok fs status path) = fs)
   \<and> ((status = Ready \<or> status = Training)
        \<and> (parent_path path = [] \<or> parent_path path \<in> fs_exists fs \<or> mkdir_error = None)
        \<and> open_ok \<longrightarrow>
        fst (save parent_path mkdir_error open_ok fs status path) = Inr ())
   \<and> (fst (save parent_path mkdir_error open_ok fs status path) = Inr () \<longrightarrow>
        (parent_path path = []
           \<or> parent_path path \<in> fs_exists (snd (save parent_path mkdir_error open_ok fs status path)))
        \<and> fs_contents (snd (save parent_path mkdir_error open_ok fs status path)) path
            = Some ''GPAGENT_TRM_V1''
        \<and> load (snd (save parent_path mkdir_error open_ok fs status path)) status path
            = (Inr (), Ready))"
proof -
  let ?r = "save parent_path mkdir_error open_ok fs status path"
  have a: "(\<exists>e. fst ?r = Inl e \<and> err_code e = InvalidState)
      \<longleftrightarrow> status \<noteq> Ready \<and> status \<noteq> Training"
    by (auto simp: save_def Let_def error2_def)
  have b: "status \<noteq> Ready \<and> status \<noteq> Training \<longrightarrow> snd ?r = fs"
    by (simp add: save_def)
  have c: "(status = Ready \<or> status = Training)
        \<and> (parent_path path = [] \<or> parent_path path \<in> fs_exists fs \<or> mkdir_error = None)
        \<and> open_ok \<longrightarrow> fst ?r = Inr ()"
    by (auto simp: save_def Let_def)
  have d: "fst ?r = Inr () \<longrightarrow>
        (parent_path path = [] \<or> parent_path path \<in> fs_exists (snd ?r))
        \<and> fs_contents (snd ?r) path = Some ''GPAGENT_TRM_V1''
        \<and> load (snd ?r) status path = (Inr (), Ready)"
    by (auto simp: save_def load_def Let_def split: if_splits)
  show ?thesis
    using a b c d by blast
qed

theorem save_then_load_witness:
  "fst (save sample_parent None True empty_fs Ready ''models/trm.bin'') = Inr ()
   \<and> ''models'' \<in> fs_exists (snd (save sample_parent None True empty_fs Ready ''models/trm.bin''))
   \<and> load (snd (save sample_parent None True empty_fs Ready ''models/trm.bin'')) Ready
        ''models/trm.bin'' = (Inr (), Ready)
   \<and> fst (save sample_parent None True empty_fs NotInitialized ''models/trm.bin'')
        = Inl (error2 InvalidState ''Cannot save model that is not initialized'')"
proof -
  have pp: "sample_parent ''models/trm.bin'' = ''models''"
    by (simp add: sample_parent_def)
  have a: "fst (save sample_parent None True empty_fs Ready ''models/trm.bin'') = Inr ()"
    using save_then_load [of sample_parent None True empty_fs Ready "''models/trm.bin''"]
    by simp
  have b: "''models'' \<in> fs_exists (snd (save sample_parent None True empty_fs Ready ''models/trm.bin''))
     \<and> load (snd (save sample_parent None True empty_fs Ready ''models/trm.bin'')) Ready
        ''models/trm.bin'' = (Inr (), Ready)"
    using save_then_load [of sample_parent None True empty_fs Ready "''models/trm.bin''"] a pp
    by simp
  have c: "fst (save sample_parent None True empty_fs NotInitialized ''models/trm.bin'')
        = Inl (error2 InvalidState ''Cannot save model that is not initialized'')"
    by (simp add: save_def)
  show ?thesis
    using a b c by blast
qed

text \<open>
  C9 as stated fails: a freshly constructed model is in status \<open>ColdStart\<close>, which is not
  \<open>NotInitialized\<close>, and \<open>save\<close> fails there although nothing hinders the file system.
\<close>

theorem save_cold_start_counterexample:
  "save sample_parent None True empty_fs ColdStart ''models/trm.bin''
     = (Inl (error2 InvalidState ''Cannot save model that is not initialized''), empty_fs)"
  by (simp add: save_def)

section \<open>Episode round trip\<close>

lemma get_strings_map: "get_strings (map JString ss) = Some ss"
  by (induction ss) simp_all

lemma action_roundtrip:
  "action_from_json (action_to_json a) =
     Some (a\<lparr>ea_result_summary := [], ea_timestamp := 0,
             ea_execution_time := to_int32 (ea_execution_time a)\<rparr>)"
  by (cases "ea_error a")
     (simp_all add: action_from_json_def action_to_json_def value_with_def get_optional_def)

lemma actions_roundtrip:
  "actions_from_json (map action_to_json as) =
     Some (map (\<lambda>a. a\<lparr>ea_result_summary := [], ea_timestamp := 0,
                        ea_execution_time := to_int32 (ea_execution_time a)\<rparr>) as)"
  by (induction as) (simp_all add: action_roundtrip)

lemma outcome_roundtrip:
  "outcome_from_json (outcome_to_json out) =
     Some (out\<lparr>oc_turns_taken := to_int32 (oc_turns_taken out),
               oc_tools_used := to_int32 (oc_tools_used out),
               oc_total_time := to_int32 (oc_total_time out),
               oc_duration := 0, oc_summary := []\<rparr>)"
  by (cases "oc_failure_reason out")
     (simp_all add: outcome_from_json_def outcome_to_json_def value_with_def get_optional_def
        default_outcome_def)

text \<open>What parsing a serialised episode gives, for every episode.\<close>

lemma episode_roundtrip:
  "from_json (to_json e) =
     Some (e\<lparr>ep_timestamp := from_seconds (to_seconds (ep_timestamp e)),
             ep_started_at := 0, ep_completed_at := 0,
             ep_actions := map (\<lambda>a. a\<lparr>ea_result_summary := [], ea_timestamp := 0,
                        ea_execution_time := to_int32 (ea_execution_time a)\<rparr>) (ep_actions e),
             ep_outcome := (ep_outcome e)\<lparr>oc_turns_taken := to_int32 (oc_turns_taken (ep_outcome e)),
               oc_tools_used := to_int32 (oc_tools_used (ep_outcome e)),
               oc_total_time := to_int32 (oc_total_time (ep_outcome e)),
               oc_duration := 0, oc_summary := []\<rparr>\<rparr>)"
  by (cases "ep_initial_context e")
     (simp_all add: from_json_def to_json_def value_with_def get_optional_def
        get_if_contains_def strings_json_def get_strings_map actions_roundtrip outcome_roundtrip)

lemma to_int32_id: "- (2 ^ 31) \<le> n \<Longrightarrow> n < 2 ^ 31 \<Longrightarrow> to_int32 n = n"
  unfolding to_int32_def by (rule signed_take_bit_int_eq_self)

lemma whole_seconds: "t mod ticks_per_second = 0 \<Longrightarrow> from_seconds (to_seconds t) = t"
proof -
  assume m: "t mod ticks_per_second = 0"
  have d: "ticks_per_second dvd t" using m by (simp add: dvd_eq_mod_eq_0)
  then have d': "ticks_per_second dvd - t" by simp
  show ?thesis
    using d d' by (simp add: from_seconds_def to_seconds_def)
qed

text \<open>
  C2 (as the code has it by design). For an episode whose timestamp is a whole number of
  seconds and whose counters and durations fit in 32 bits, parsing the serialised episode
  succeeds and gives an episode that agrees with the original on the id, the timestamp,
  the task description and category, the project, the files involved, the initial
  context, the learnings and the keywords, on the outcome's success, turns taken, tools
  used, total time and failure reason, and on each action's tool, arguments, success,
  error and execution time.
\<close>

theorem episode_roundtrip_serialised:
  assumes "ep_timestamp e mod ticks_per_second = 0"
    and "\<forall>a \<in> set (ep_actions e). - (2 ^ 31) \<le> ea_execution_time a \<and> ea_execution_time a < 2 ^ 31"
    and "\<forall>n \<in> {oc_turns_taken (ep_outcome e), oc_tools_used (ep_outcome e),
                 oc_total_time (ep_outcome e)}. - (2 ^ 31) \<le> n \<and> n < 2 ^ 31"
  shows "\<exists>e'. from_json (to_json e) = Some e'
     \<and> ep_id e' = ep_id e \<and> ep_timestamp e' = ep_timestamp e
     \<and> ep_task_description e' = ep_task_description e
     \<and> ep_task_category e' = ep_task_category e
     \<and> ep_project e' = ep_project e
     \<and> ep_files_involved e' = ep_files_involved e
     \<and> ep_initial_context e' = ep_initial_context e
     \<and> ep_learnings e' = ep_learnings e
     \<and> ep_keywords e' = ep_keywords e
     \<and> oc_success (ep_outcome e') = oc_success (ep_outcome e)
     \<and> oc_turns_taken (ep_outcome e') = oc_turns_taken (ep_outcome e)
     \<and> oc_tools_used (ep_outcome e') = oc_tools_used (ep_outcome e)
     \<and> oc_total_time (ep_outcome e') = oc_total_time (ep_outcome e)
     \<and> oc_failure_reason (ep_outcome e') = oc_failure_reason (ep_outcome e)
     \<and> map (\<lambda>a. (ea_tool a, ea_arguments a, ea_success a, ea_error a, ea_execution_time a))
          (ep_actions e')
        = map (\<lambda>a. (ea_tool a, ea_arguments a, ea_success a, ea_error a, ea_execution_time a))
          (ep_actions e)"
proof -
  have acts: "map (\<lambda>a. (ea_tool a, ea_arguments a, ea_success a, ea_error a, ea_execution_time a))
        (map (\<lambda>a. a\<lparr>ea_result_summary := [], ea_timestamp := 0,
                     ea_execution_time := to_int32 (ea_execution_time a)\<rparr>) (ep_actions e))
      = map (\<lambda>a. (ea_tool a, ea_arguments a, ea_success a, ea_error a, ea_execution_time a))
        (ep_actions e)"
    using assms(2) by (simp add: to_int32_id)
  show ?thesis
    unfolding episode_roundtrip
    using assms(1,3) acts by (simp add: whole_seconds to_int32_id)
qed

theorem episode_roundtrip_serialised_witness:
  "\<exists>e'. from_json (to_json sample_episode) = Some e'
     \<and> ep_id e' = ''ep_1'' \<and> ep_timestamp e' = 0
     \<and> ep_task_description e' = ''List the files''
     \<and> oc_success (ep_outcome e')
     \<and> map (\<lambda>a. (ea_tool a, ea_arguments a, ea_success a, ea_error a, ea_execution_time a))
          (ep_actions e')
        = [(''bash'', JObject [(''command'', JString ''ls'')], True, None, 0)]"
proof -
  have h1: "ep_timestamp sample_episode mod ticks_per_second = 0"
    by (simp add: sample_episode_def)
  have h2: "\<forall>a \<in> set (ep_actions sample_episode).
      - (2 ^ 31) \<le> ea_execution_time a \<and> ea_execution_time a < 2 ^ 31"
    by (simp add: sample_episode_def sample_action_def)
  have h3: "\<forall>n \<in> {oc_turns_taken (ep_outcome sample_episode),
      oc_tools_used (ep_outcome sample_episode), oc_total_time (ep_outcome sample_episode)}.
      - (2 ^ 31) \<le> n \<and> n < 2 ^ 31"
    by (simp add: sample_episode_def default_outcome_def)
  from episode_roundtrip_serialised [OF h1 h2 h3]
  obtain e' where e': "from_json (to_json sample_episode) = Some e'"
    "ep_id e' = ep_id sample_episode" "ep_timestamp e' = ep_timestamp sample_episode"
    "ep_task_description e' = ep_task_description sample_episode"
    "oc_success (ep_outcome e') = oc_success (ep_outcome sample_episode)"
    "map (\<lambda>a. (ea_tool a, ea_arguments a, ea_success a, ea_error a, ea_execution_time a))
          (ep_actions e')
        = map (\<lambda>a. (ea_tool a, ea_arguments a, ea_success a, ea_error a, ea_execution_time a))
          (ep_actions sample_episode)"
    by blast
  show ?thesis
    by (rule exI [of _ e'])
       (use e' in \<open>simp add: sample_episode_def sample_action_def default_outcome_def\<close>)
qed

text \<open>
  C2 as stated fails. The sample episode, stamped one and a half seconds after the epoch,
  comes back stamped at one second: the serialised timestamp counts whole seconds. (It
  also comes back without its action's result summary, which is not serialised.)
\<close>

theorem episode_roundtrip_counterexample:
  "from_json (to_json sample_episode_late)
     = Some (sample_episode_late\<lparr>ep_timestamp := 1000000000,
               ep_actions := [sample_action\<lparr>ea_result_summary := []\<rparr>]\<rparr>)
   \<and> from_json (to_json sample_episode_late) \<noteq> Some sample_episode_late"
  by (simp add: episode_roundtrip sample_episode_late_def sample_episode_def sample_action_def
      default_outcome_def to_int32_def from_seconds_def to_seconds_def ticks_per_second_def)

section \<open>The episodic index\<close>















section \<open>The context builder's token limit\<close>

text \<open>
  C7 (as the code has it). \<open>build\<close> returns a \<open>ContextTooLarge\<close> error if and only if the
  estimated token count exceeds \<open>max_tokens\<close>, and the assembled window with that estimate
  otherwise. The estimate is: for each of the six text layers its length divided by 3.5
  (rounded down); for each message 3 plus the estimate of its content, plus for each of
  its tool calls 10 plus the estimate of the tool name plus the estimate of the argument
  JSON; and, when the tool definitions are not empty, the estimate of their JSON.
\<close>

theorem build_context_too_large:
  "((\<exists>e. build dump b = Inl e \<and> err_code e = ContextTooLarge)
      \<longleftrightarrow> estimated_tokens dump b > max_tokens (cb_config b))
   \<and> ((\<exists>e. build dump b = Inl e) \<longleftrightarrow> estimated_tokens dump b > max_tokens (cb_config b))
   \<and> (\<not> estimated_tokens dump b > max_tokens (cb_config b) \<longrightarrow>
        build dump b =
          Inr \<lparr>cw_system_prompt = build_system_prompt b, cw_messages = cb_messages b,
               cw_tools = cb_tools b, cw_estimated_tokens = estimated_tokens dump b,
               cw_was_compacted = False\<rparr>)
   \<and> estimated_tokens dump b =
       int (2 * length (cb_system_prompt b) div 7)
       + int (2 * length (cb_user_memory b) div 7)
       + int (2 * length (cb_project_memory b) div 7)
       + int (2 * length (cb_compressed_history b) div 7)
       + int (2 * length (cb_episodes_context b) div 7)
       + int (2 * length (cb_task_context b) div 7)
       + (\<Sum>msg \<leftarrow> cb_messages b.
            3 + int (2 * length (msg_content msg) div 7)
            + (\<Sum>tc \<leftarrow> msg_tool_calls msg.
                 10 + int (2 * length (tc_tool_name tc) div 7)
                 + int (2 * length (dump (tc_arguments tc)) div 7)))
       + (if json_empty (cb_tools b) then 0 else int (2 * length (dump (cb_tools b)) div 7))"
proof -
  have a: "(\<exists>e. build dump b = Inl e \<and> err_code e = ContextTooLarge)
      \<longleftrightarrow> estimated_tokens dump b > max_tokens (cb_config b)"
    by (simp add: build_def Let_def error2_def)
  have b: "(\<exists>e. build dump b = Inl e) \<longleftrightarrow> estimated_tokens dump b > max_tokens (cb_config b)"
    by (simp add: build_def Let_def)
  have c: "\<not> estimated_tokens dump b > max_tokens (cb_config b) \<longrightarrow>
        build dump b =
          Inr \<lparr>cw_system_prompt = build_system_prompt b, cw_messages = cb_messages b,
               cw_tools = cb_tools b, cw_estimated_tokens = estimated_tokens dump b,
               cw_was_compacted = False\<rparr>"
    by (simp add: build_def Let_def)
  have d: "estimated_tokens dump b =
       int (2 * length (cb_system_prompt b) div 7)
       + int (2 * length (cb_user_memory b) div 7)
       + int (2 * length (cb_project_memory b) div 7)
       + int (2 * length (cb_compressed_history b) div 7)
       + int (2 * length (cb_episodes_context b) div 7)
       + int (2 * length (cb_task_context b) div 7)
       + (\<Sum>msg \<leftarrow> cb_messages b.
            3 + int (2 * length (msg_content msg) div 7)
            + (\<Sum>tc \<leftarrow> msg_tool_calls msg.
                 10 + int (2 * length (tc_tool_name tc) div 7)
                 + int (2 * length (dump (tc_arguments tc)) div 7)))
       + (if json_empty (cb_tools b) then 0 else int (2 * length (dump (cb_tools b)) div 7))"
    unfolding estimated_tokens_def estimate_message_tokens_def estimate_tokens_def by simp
  show ?thesis
    using a b c d by blast
qed

theorem build_context_too_large_witness:
  "estimated_tokens sample_dump (sample_builder 180000) = 15
   \<and> build sample_dump (sample_builder 180000) =
       Inr \<lparr>cw_system_prompt = [], cw_messages = cb_messages (sample_builder 180000),
            cw_tools = JNull, cw_estimated_tokens = 15, cw_was_compacted = False\<rparr>
   \<and> (\<exists>e. build sample_dump (sample_builder 14) = Inl e \<and> err_code e = ContextTooLarge)"
proof -
  have e: "estimated_tokens sample_dump (sample_builder limit) = 15" for limit
    using build_context_too_large [of sample_dump "sample_builder limit"]
    by (simp add: sample_builder_def sample_dump_def)
  have p: "build_system_prompt (sample_builder limit) = []" for limit
    by (simp add: build_system_prompt_def sample_builder_def)
  have m: "max_tokens (cb_config (sample_builder limit)) = limit"
    and t: "cb_tools (sample_builder limit) = JNull" for limit
    by (simp_all add: sample_builder_def)
  have ok: "build sample_dump (sample_builder 180000) =
       Inr \<lparr>cw_system_prompt = [], cw_messages = cb_messages (sample_builder 180000),
            cw_tools = JNull, cw_estimated_tokens = 15, cw_was_compacted = False\<rparr>"
    using build_context_too_large [of sample_dump "sample_builder 180000"]
    by (simp add: e p m t)
  have bad: "\<exists>e. build sample_dump (sample_builder 14) = Inl e \<and> err_code e = ContextTooLarge"
    using build_context_too_large [of sample_dump "sample_builder 14"]
    by (simp add: e m)
  show ?thesis
    using e ok bad by blast
qed

text \<open>
  C7 as stated fails: the estimate worded in the claim leaves out the tool name of each
  tool call. For the sample builder with \<open>max_tokens = 13\<close> the worded estimate is 13,
  which does not exceed the limit, yet \<open>build\<close> returns \<open>ContextTooLarge\<close>, because the
  code's estimate is 15.
\<close>

theorem build_spec_estimate_counterexample:
  "spec_estimated_tokens sample_dump (sample_builder 13) = 13
   \<and> \<not> spec_estimated_tokens sample_dump (sample_builder 13)
         > max_tokens (cb_config (sample_builder 13))
   \<and> build sample_dump (sample_builder 13) =
       Inl (error2 ContextTooLarge ''Context exceeds maximum tokens: 15 > 13'')"
proof -
  have s: "spec_estimated_tokens sample_dump (sample_builder 13) = 13"
    by (simp add: spec_estimated_tokens_def spec_message_tokens_def estimate_tokens_def
        sample_builder_def sample_dump_def)
  have e: "estimated_tokens sample_dump (sample_builder 13) = 15"
    by (simp add: estimated_tokens_def estimate_message_tokens_def estimate_tokens_def
        sample_builder_def sample_dump_def)
  have m: "max_tokens (cb_config (sample_builder 13)) = 13"
    by (simp add: sample_builder_def)
  have t15: "to_string 15 = ''15''" and t13: "to_string 13 = ''13''"
    by code_simp+
  have b: "build sample_dump (sample_builder 13) =
       Inl (error2 ContextTooLarge ''Context exceeds maximum tokens: 15 > 13'')"
    by (simp add: build_def Let_def e m t15 t13)
  show ?thesis
    using s m b by simp
qed

section \<open>Spans of the compressed history\<close>

lemma compact_loop_spans:
  assumes "0 < batch_size"
  shows "\<exists>new. compact_loop summarizer clock messages batch_size compact_end compact_start summaries
            = Some (summaries @ new)
         \<and> sorted_wrt (\<lambda>a b. sm_end_turn a \<le> sm_start_turn b) new
         \<and> (\<forall>x \<in> set new. compact_start \<le> sm_start_turn x \<and> sm_start_turn x < sm_end_turn x
                \<and> sm_end_turn x \<le> compact_end)"
proof (induction "compact_end - compact_start" arbitrary: compact_start summaries rule: less_induct)
  case less
  show ?case
  proof (cases "compact_start < compact_end")
    case False
    then have "compact_loop summarizer clock messages batch_size compact_end compact_start summaries
        = Some (summaries @ [])"
      by (subst compact_loop.simps) simp
    then show ?thesis by (intro exI [of _ "[]"]) simp
  next
    case True
    define batch_end where "batch_end = min (compact_start + batch_size) compact_end"
    define batch_messages where "batch_messages = get_range messages compact_start batch_end"
    define summary_result where "summary_result =
        compact_messages summarizer (clock compact_start) batch_messages 0 (int (length batch_messages))"
    define added where "added =
        (case summary_result of
           Inr content \<Rightarrow>
             [\<lparr>sm_start_turn = compact_start, sm_end_turn = batch_end, sm_content = content,
               sm_created_at = clock compact_start\<rparr>]
         | Inl e \<Rightarrow> [])"
    have be: "compact_start < batch_end" "batch_end \<le> compact_end"
      using True assms by (simp_all add: batch_end_def)
    then have "compact_end - batch_end < compact_end - compact_start"
      by simp
    from less [OF this, of "summaries @ added"]
    obtain new where new: "compact_loop summarizer clock messages batch_size compact_end batch_end
          (summaries @ added) = Some ((summaries @ added) @ new)"
        "sorted_wrt (\<lambda>a b. sm_end_turn a \<le> sm_start_turn b) new"
        "\<forall>x \<in> set new. batch_end \<le> sm_start_turn x \<and> sm_start_turn x < sm_end_turn x
                \<and> sm_end_turn x \<le> compact_end"
      by blast
    have step: "compact_loop summarizer clock messages batch_size compact_end compact_start summaries
        = compact_loop summarizer clock messages batch_size compact_end batch_end (summaries @ added)"
      using True
      by (subst compact_loop.simps)
         (simp add: Let_def batch_end_def batch_messages_def summary_result_def added_def
            add_summary_def split: sum.splits)
    have added_cases: "added = [] \<or> (\<exists>c. added =
        [\<lparr>sm_start_turn = compact_start, sm_end_turn = batch_end, sm_content = c,
          sm_created_at = clock compact_start\<rparr>])"
      by (cases summary_result) (simp_all add: added_def)
    have s: "sorted_wrt (\<lambda>a b. sm_end_turn a \<le> sm_start_turn b) (added @ new)"
      using added_cases new(2,3) by (elim disjE exE) simp_all
    have b: "\<forall>x \<in> set (added @ new). compact_start \<le> sm_start_turn x \<and> sm_start_turn x < sm_end_turn x
                \<and> sm_end_turn x \<le> compact_end"
    proof
      fix x assume "x \<in> set (added @ new)"
      then consider "x \<in> set added" | "x \<in> set new" by auto
      then show "compact_start \<le> sm_start_turn x \<and> sm_start_turn x < sm_end_turn x
                \<and> sm_end_turn x \<le> compact_end"
      proof cases
        case 1
        with added_cases be show ?thesis by (elim disjE exE) simp_all
      next
        case 2
        with new(3) be show ?thesis by (metis le_trans less_imp_le_nat)
      qed
    qed
    show ?thesis
      unfolding step new(1)
      by (intro exI [of _ "added @ new"]) (use s b in simp)
  qed
qed


lemma to_size_t_samples: "to_size_t 5 = 5" "to_size_t 2 = 2"
  by (simp_all add: to_size_t_def)

lemma compact_loop_done:
  "\<not> compact_start < compact_end \<Longrightarrow>
   compact_loop summarizer clock messages batch_size compact_end compact_start summaries
     = Some summaries"
  by (subst compact_loop.simps) simp

lemma compact_loop_step:
  "compact_start < compact_end \<Longrightarrow>
   compact_loop summarizer clock messages batch_size compact_end compact_start summaries
     = (let batch_end = min (compact_start + batch_size) compact_end;
            batch_messages = get_range messages compact_start batch_end
        in compact_loop summarizer clock messages batch_size compact_end batch_end
             (case compact_messages summarizer (clock compact_start) batch_messages
                     0 (int (length batch_messages)) of
                Inr content \<Rightarrow>
                  add_summary summaries compact_start batch_end content (clock compact_start)
              | Inl e \<Rightarrow> summaries))"
  by (subst compact_loop.simps) (simp add: Let_def)

lemma sample_first_compaction: "compact_if_needed sample_config (Some provider_ok) sample_clock sample_state
    = Some sample_state_1"
  by (simp add: compact_if_needed_def sample_config_def sample_state_def sample_state_1_def
      sample_user_message_def estimate_tokens_def Let_def to_size_t_samples compact_loop_done compact_loop_step
      get_range_def compact_messages_def provider_ok_def sample_response_def add_summary_def
      sample_clock_def trim_def)

lemma sample_second_compaction: "compact_if_needed sample_config (Some provider_ok) sample_clock
      (append_message sample_state_1 sample_user_message)
    = Some sample_state_2"
  by (simp add: compact_if_needed_def sample_config_def append_message_def sample_state_1_def
      sample_state_2_def
      sample_user_message_def estimate_tokens_def Let_def to_size_t_samples compact_loop_done compact_loop_step
      get_range_def compact_messages_def provider_ok_def sample_response_def add_summary_def
      sample_clock_def trim_def)

text \<open>
  Within one invocation of \<open>compact_if_needed\<close> with a positive batch size, the
  summaries appended have spans that do not overlap, are not empty, have strictly
  increasing end turns and lie within the thread as it was at the invocation.
\<close>

lemma compact_if_needed_single:
  assumes "0 < to_size_t (summarize_batch cfg)"
  shows "\<exists>st' new. compact_if_needed cfg summarizer clock st = Some st'
      \<and> cs_summaries st' = cs_summaries st @ new
      \<and> sorted_wrt (\<lambda>a b. sm_end_turn a \<le> sm_start_turn b) new
      \<and> sorted_wrt (\<lambda>a b. sm_end_turn a < sm_end_turn b) new
      \<and> (\<forall>x \<in> set new. sm_start_turn x < sm_end_turn x
            \<and> sm_end_turn x \<le> length (cs_messages st))"
proof -
  let ?tokens = "sum_list (map (\<lambda>msg. estimate_tokens (msg_content msg)) (cs_messages st))"
  let ?total = "length (cs_messages st)"
  let ?keep = "to_size_t (keep_raw_turns cfg * 2)"
  show ?thesis
  proof (cases "?tokens > compaction_threshold cfg \<and> \<not> ?total \<le> ?keep")
    case False
    then have "compact_if_needed cfg summarizer clock st = Some st"
      by (auto simp: compact_if_needed_def Let_def)
    then show ?thesis
      by (intro exI [of _ st] exI [of _ "[]"]) simp
  next
    case True
    from compact_loop_spans [OF assms, of summarizer clock "cs_messages st" "?total - ?keep" 0
        "cs_summaries st"]
    obtain new where new:
      "compact_loop summarizer clock (cs_messages st) (to_size_t (summarize_batch cfg))
         (?total - ?keep) 0 (cs_summaries st) = Some (cs_summaries st @ new)"
      "sorted_wrt (\<lambda>a b. sm_end_turn a \<le> sm_start_turn b) new"
      "\<forall>x \<in> set new. 0 \<le> sm_start_turn x \<and> sm_start_turn x < sm_end_turn x
            \<and> sm_end_turn x \<le> ?total - ?keep"
      by blast
    have strict: "sorted_wrt (\<lambda>a b. sm_end_turn a < sm_end_turn b) new"
      using new(2,3)
      by (auto simp: sorted_wrt_iff_nth_less) (meson le_less_trans nth_mem)
    have run: "compact_if_needed cfg summarizer clock st =
        Some \<lparr>cs_messages = trim (cs_messages st) ?keep, cs_summaries = cs_summaries st @ new\<rparr>"
      using True new(1) by (simp add: compact_if_needed_def Let_def)
    have bound: "\<forall>x \<in> set new. sm_start_turn x < sm_end_turn x \<and> sm_end_turn x \<le> ?total"
      using new(3) by auto
    show ?thesis
      unfolding run
      by (intro exI [of _ "\<lparr>cs_messages = trim (cs_messages st) ?keep,
            cs_summaries = cs_summaries st @ new\<rparr>"] exI [of _ new])
         (use new(2) strict bound in simp)
  qed
qed

text \<open>
  C8, at two invocations in a row. The first compaction of the sample thread of five
  messages stores the span from turn 0 to turn 3 and trims the thread to its last two
  messages; after one more message, the second compaction stores the span from turn 0 to
  turn 1, because it passes positions in the trimmed thread to \<open>add_summary\<close> as turn
  numbers. The compressed history then holds the spans 0 to 3 and 0 to 1, in this order:
  they overlap, and the end turn decreases.
\<close>

theorem compact_if_needed_repeated_spans:
  "compact_if_needed sample_config (Some provider_ok) sample_clock sample_state
     = Some sample_state_1
   \<and> compact_if_needed sample_config (Some provider_ok) sample_clock
        (append_message sample_state_1 sample_user_message)
     = Some sample_state_2
   \<and> map sm_start_turn (cs_summaries sample_state_2) = [0, 0]
   \<and> map sm_end_turn (cs_summaries sample_state_2) = [3, 1]"
  using sample_first_compaction sample_second_compaction by (simp add: sample_state_2_def)

end
